theory Spec2Isabelle
  imports Complex_Main "HOL-Library.Log_Nat"
begin

section \<open>Text and characters\<close>

text \<open>
  The extractors of both invoice families (\<^verbatim>\<open>src/air-e/data_extractor.py\<close> and
  \<^verbatim>\<open>src/ESSA/data_extractor.py\<close>) work on one Python \<^verbatim>\<open>str\<close>, the text of the
  PDF. A text is modelled as a \<^typ>\<open>string\<close>, one \<^typ>\<open>char\<close> per code point, so the
  model covers the texts whose code points lie in U+0000 .. U+00FF; every pattern
  of the two catalogs lies in that range. The character tests below are the ones
  Python's \<^verbatim>\<open>re\<close> module and \<^verbatim>\<open>str\<close> methods apply to code points of that range.
\<close>

definition code :: "char \<Rightarrow> int" where
  "code c = of_char c"

definition newline :: char where
  "newline = CHR 0x0A"

definition is_digit :: "char \<Rightarrow> bool" where
  \<comment> \<open>\<^verbatim>\<open>\d\<close>: the decimal digits; below U+0100 these are 0 to 9\<close>
  "is_digit c = (48 \<le> code c \<and> code c \<le> 57)"

definition is_space :: "char \<Rightarrow> bool" where
  \<comment> \<open>\<^verbatim>\<open>\s\<close> and \<^verbatim>\<open>str.strip\<close>: tab to carriage return, the four
      separators 0x1C to 0x1F, the space, NEL and the no-break space\<close>
  "is_space c = ((9 \<le> code c \<and> code c \<le> 13) \<or> (28 \<le> code c \<and> code c \<le> 32)
                  \<or> code c = 133 \<or> code c = 160)"

definition is_upper :: "char \<Rightarrow> bool" where
  \<comment> \<open>the upper-case letters that have a lower-case partner below U+0100\<close>
  "is_upper c = ((65 \<le> code c \<and> code c \<le> 90)
                  \<or> (192 \<le> code c \<and> code c \<le> 222 \<and> code c \<noteq> 215))"

definition is_lower :: "char \<Rightarrow> bool" where
  \<comment> \<open>the lower-case letters that have an upper-case partner below U+0100\<close>
  "is_lower c = ((97 \<le> code c \<and> code c \<le> 122)
                  \<or> (224 \<le> code c \<and> code c \<le> 254 \<and> code c \<noteq> 247))"

definition is_word :: "char \<Rightarrow> bool" where
  \<comment> \<open>\<^verbatim>\<open>\w\<close>: alphanumeric (\<^verbatim>\<open>str.isalnum\<close>) or the underscore\<close>
  "is_word c = (is_digit c \<or> is_upper c \<or> is_lower c \<or> code c = 95
                 \<or> code c \<in> set [170, 178, 179, 181, 185, 186, 188, 189, 190, 223, 255])"

definition lower :: "char \<Rightarrow> char" where
  "lower c = (if is_upper c then char_of (code c + 32) else c)"

definition upper :: "char \<Rightarrow> char" where
  "upper c = (if is_lower c then char_of (code c - 32) else c)"

definition py_upper :: "string \<Rightarrow> string" where
  \<comment> \<open>\<^verbatim>\<open>str.upper\<close>. Its only caller passes a capture of \<^verbatim>\<open>[A-Z][A-Za-z\s_-]+?\<close>,
      where upper-casing is character by character.\<close>
  "py_upper s = map upper s"

definition strip :: "string \<Rightarrow> string" where
  \<comment> \<open>\<^verbatim>\<open>str.strip()\<close>\<close>
  "strip s = rev (dropWhile is_space (rev (dropWhile is_space s)))"

fun replace_from :: "string \<Rightarrow> string \<Rightarrow> nat \<Rightarrow> string \<Rightarrow> string" where
  "replace_from old new k [] = []"
| "replace_from old new k (c # s) =
     (if 0 < k then replace_from old new (k - 1) s
      else if take (length old) (c # s) = old
           then new @ replace_from old new (length old - 1) s
           else c # replace_from old new 0 s)"

definition py_replace :: "string \<Rightarrow> string \<Rightarrow> string \<Rightarrow> string" where
  \<comment> \<open>\<^verbatim>\<open>s.replace(old, new)\<close> for a non-empty \<^verbatim>\<open>old\<close>: the occurrences are found
      from the left and do not overlap\<close>
  "py_replace old new s = replace_from old new 0 s"

fun split_from :: "string \<Rightarrow> string \<Rightarrow> string list" where
  "split_from acc [] = [rev acc]"
| "split_from acc (c # s) =
     (if c = newline then rev acc # split_from [] s else split_from (c # acc) s)"

definition split_lines :: "string \<Rightarrow> string list" where
  \<comment> \<open>\<^verbatim>\<open>s.split('\n')\<close>\<close>
  "split_lines s = split_from [] s"

fun contains :: "string \<Rightarrow> string \<Rightarrow> bool" where
  \<comment> \<open>\<^verbatim>\<open>sub in s\<close>\<close>
  "contains sub [] = (sub = [])"
| "contains sub (c # s) = (take (length sub) (c # s) = sub \<or> contains sub s)"

section \<open>Regular expressions as Python's \<^verbatim>\<open>re\<close> matches them\<close>

text \<open>
  A pattern is a term of \<open>regex\<close>. The matcher is a backtracking one, as
  Python's is: \<open>rmatch\<close> returns every way a pattern matches at a position, in the
  order in which Python tries them, so the head of the list is the match Python
  reports. A state is the position, the rest of the text from there, and the groups
  captured so far.
\<close>

datatype flag = IGNORECASE | DOTALL

datatype citem = CC char | CR char char | Cd | Cs | Cw

datatype regex =
    Lit char
  | Dot
  | Cls bool "citem list"
  | Eps
  | Seq regex regex
  | Alt regex regex
  | Star bool regex
  | Grp nat regex
  | Bol
  | Eol
  | Ahead regex

type_synonym mstate = "nat \<times> string \<times> (nat \<times> string) list"

definition chr_eq :: "flag list \<Rightarrow> char \<Rightarrow> char \<Rightarrow> bool" where
  "chr_eq fl p c = (if IGNORECASE \<in> set fl then lower p = lower c else p = c)"

fun in_item :: "citem \<Rightarrow> char \<Rightarrow> bool" where
  "in_item (CC p) c = (p = c)"
| "in_item (CR lo hi) c = (code lo \<le> code c \<and> code c \<le> code hi)"
| "in_item Cd c = is_digit c"
| "in_item Cs c = is_space c"
| "in_item Cw c = is_word c"

definition item_matches :: "flag list \<Rightarrow> char \<Rightarrow> citem \<Rightarrow> bool" where
  \<comment> \<open>with IGNORECASE a character is in a class when one of its two cases is\<close>
  "item_matches fl c it =
     (if IGNORECASE \<in> set fl then in_item it c \<or> in_item it (lower c) \<or> in_item it (upper c)
      else in_item it c)"

definition cls_matches :: "flag list \<Rightarrow> bool \<Rightarrow> citem list \<Rightarrow> char \<Rightarrow> bool" where
  \<comment> \<open>\<open>neg\<close> is the leading \<^verbatim>\<open>^\<close> of a class\<close>
  "cls_matches fl neg items c = (list_ex (item_matches fl c) items \<noteq> neg)"

function rmatch :: "flag list \<Rightarrow> regex \<Rightarrow> mstate \<Rightarrow> mstate list" where
  "rmatch fl (Lit p) (i, s, g) =
     (case s of [] \<Rightarrow> [] | c # t \<Rightarrow> if chr_eq fl p c then [(Suc i, t, g)] else [])"
| "rmatch fl Dot (i, s, g) =
     (case s of [] \<Rightarrow> []
      | c # t \<Rightarrow> if DOTALL \<in> set fl \<or> c \<noteq> newline then [(Suc i, t, g)] else [])"
| "rmatch fl (Cls neg items) (i, s, g) =
     (case s of [] \<Rightarrow> [] | c # t \<Rightarrow> if cls_matches fl neg items c then [(Suc i, t, g)] else [])"
| "rmatch fl Eps (i, s, g) = [(i, s, g)]"
| "rmatch fl (Seq r1 r2) (i, s, g) = concat (map (rmatch fl r2) (rmatch fl r1 (i, s, g)))"
| "rmatch fl (Alt r1 r2) (i, s, g) = rmatch fl r1 (i, s, g) @ rmatch fl r2 (i, s, g)"
| "rmatch fl (Star greedy r) (i, s, g) =
     (let more = concat (map (\<lambda>st. if length (fst (snd st)) < length s
                                     then rmatch fl (Star greedy r) st else [])
                             (rmatch fl r (i, s, g)))
      in if greedy then more @ [(i, s, g)] else (i, s, g) # more)"
| "rmatch fl (Grp n r) (i, s, g) =
     map (\<lambda>st. (fst st, fst (snd st), (n, take (fst st - i) s) # snd (snd st)))
         (rmatch fl r (i, s, g))"
| "rmatch fl Bol (i, s, g) = (if i = 0 then [(i, s, g)] else [])"
| "rmatch fl Eol (i, s, g) = (if s = [] \<or> s = [newline] then [(i, s, g)] else [])"
| "rmatch fl (Ahead r) (i, s, g) = (if rmatch fl r (i, s, g) = [] then [] else [(i, s, g)])"
  by pat_completeness auto
termination
  by (relation "measures [\<lambda>(fl, r, st). size r, \<lambda>(fl, r, st). length (fst (snd st))]") auto

type_synonym rematch = "string \<times> (nat \<times> string) list"

definition mgroup :: "rematch \<Rightarrow> nat \<Rightarrow> string" where
  \<comment> \<open>\<^verbatim>\<open>m.group(n)\<close>; group 0 is the whole match. Every group of the two catalogs
      takes part in every match of its pattern, so no group is ever unset.\<close>
  "mgroup m n = (if n = 0 then fst m else (case map_of (snd m) n of Some x \<Rightarrow> x | None \<Rightarrow> []))"

definition match_at :: "flag list \<Rightarrow> regex \<Rightarrow> nat \<Rightarrow> string \<Rightarrow> rematch option" where
  \<comment> \<open>the first way the pattern matches at position \<open>i\<close>, where the text goes on with \<open>s\<close>\<close>
  "match_at fl r i s =
     (case rmatch fl r (i, s, []) of [] \<Rightarrow> None
      | st # _ \<Rightarrow> Some (take (fst st - i) s, snd (snd st)))"

definition re_match :: "regex \<Rightarrow> string \<Rightarrow> flag list \<Rightarrow> rematch option" where
  \<comment> \<open>\<^verbatim>\<open>re.match\<close>: at the start of the text only\<close>
  "re_match r s fl = match_at fl r 0 s"

fun search_from :: "flag list \<Rightarrow> regex \<Rightarrow> nat \<Rightarrow> string \<Rightarrow> rematch option" where
  "search_from fl r i [] = match_at fl r i []"
| "search_from fl r i (c # s) =
     (case match_at fl r i (c # s) of Some m \<Rightarrow> Some m | None \<Rightarrow> search_from fl r (Suc i) s)"

definition re_search :: "regex \<Rightarrow> string \<Rightarrow> flag list \<Rightarrow> rematch option" where
  \<comment> \<open>\<^verbatim>\<open>re.search\<close>: the leftmost position with a match\<close>
  "re_search r s fl = search_from fl r 0 s"

fun finditer_from :: "flag list \<Rightarrow> regex \<Rightarrow> nat \<Rightarrow> nat \<Rightarrow> string \<Rightarrow> rematch list" where
  "finditer_from fl r k i [] = (case match_at fl r i [] of Some m \<Rightarrow> [m] | None \<Rightarrow> [])"
| "finditer_from fl r k i (c # s) =
     (if 0 < k then finditer_from fl r (k - 1) (Suc i) s
      else (case match_at fl r i (c # s) of
              Some m \<Rightarrow> m # finditer_from fl r (length (fst m) - 1) (Suc i) s
            | None \<Rightarrow> finditer_from fl r 0 (Suc i) s))"

definition re_finditer :: "regex \<Rightarrow> string \<Rightarrow> flag list \<Rightarrow> rematch list" where
  \<comment> \<open>the successive matches that \<^verbatim>\<open>re.findall\<close> reports, from the left, each search
      starting where the previous match ended (\<open>k\<close> counts the characters of the
      previous match still to be passed). No pattern of the catalogs matches the
      empty string, so the rule for what follows an empty match is not needed: here
      the search simply moves on by one character.\<close>
  "re_finditer r s fl = finditer_from fl r 0 0 s"

definition re_findall1 :: "regex \<Rightarrow> string \<Rightarrow> flag list \<Rightarrow> string list" where
  \<comment> \<open>\<^verbatim>\<open>re.findall\<close> for a pattern with one group: the list of the group's texts\<close>
  "re_findall1 r s fl = map (\<lambda>m. mgroup m 1) (re_finditer r s fl)"

definition re_findall0 :: "regex \<Rightarrow> string \<Rightarrow> flag list \<Rightarrow> string list" where
  \<comment> \<open>\<^verbatim>\<open>re.findall\<close> for a pattern without groups: the list of the matched texts\<close>
  "re_findall0 r s fl = map (\<lambda>m. mgroup m 0) (re_finditer r s fl)"

definition re_findall2 :: "regex \<Rightarrow> string \<Rightarrow> flag list \<Rightarrow> (string \<times> string) list" where
  \<comment> \<open>\<^verbatim>\<open>re.findall\<close> for a pattern with two groups: the list of the pairs\<close>
  "re_findall2 r s fl = map (\<lambda>m. (mgroup m 1, mgroup m 2)) (re_finditer r s fl)"

subsection \<open>Writing patterns\<close>

definition seqs :: "regex list \<Rightarrow> regex" where
  "seqs rs = foldr Seq rs Eps"

definition lit :: "string \<Rightarrow> regex" where
  \<comment> \<open>a run of literal characters\<close>
  "lit s = seqs (map Lit s)"

definition plus :: "regex \<Rightarrow> regex" where
  \<comment> \<open>\<^verbatim>\<open>r+\<close>\<close>
  "plus r = Seq r (Star True r)"

definition plus_lazy :: "regex \<Rightarrow> regex" where
  \<comment> \<open>\<^verbatim>\<open>r+?\<close>\<close>
  "plus_lazy r = Seq r (Star False r)"

definition opt :: "regex \<Rightarrow> regex" where
  \<comment> \<open>\<^verbatim>\<open>r?\<close>\<close>
  "opt r = Alt r Eps"

definition times :: "nat \<Rightarrow> regex \<Rightarrow> regex" where
  \<comment> \<open>\<^verbatim>\<open>r{n}\<close>\<close>
  "times n r = seqs (replicate n r)"

definition at_least :: "nat \<Rightarrow> regex \<Rightarrow> regex" where
  \<comment> \<open>\<^verbatim>\<open>r{n,}\<close>\<close>
  "at_least n r = Seq (times n r) (Star True r)"

fun up_to :: "nat \<Rightarrow> regex \<Rightarrow> regex" where
  \<comment> \<open>\<^verbatim>\<open>r{0,n}\<close>\<close>
  "up_to 0 r = Eps"
| "up_to (Suc n) r = opt (Seq r (up_to n r))"

definition between :: "nat \<Rightarrow> nat \<Rightarrow> regex \<Rightarrow> regex" where
  \<comment> \<open>\<^verbatim>\<open>r{n,m}\<close>\<close>
  "between n m r = Seq (times n r) (up_to (m - n) r)"

definition d :: regex where
  \<comment> \<open>\<^verbatim>\<open>\d\<close>, also written \<^verbatim>\<open>[\d]\<close>\<close>
  "d = Cls False [Cd]"

definition w :: regex where
  \<comment> \<open>\<^verbatim>\<open>\w\<close>\<close>
  "w = Cls False [Cw]"

definition sp :: regex where
  \<comment> \<open>\<^verbatim>\<open>\s+\<close>\<close>
  "sp = plus (Cls False [Cs])"

definition sp0 :: regex where
  \<comment> \<open>\<^verbatim>\<open>\s*\<close>\<close>
  "sp0 = Star True (Cls False [Cs])"

definition not_nl :: regex where
  \<comment> \<open>\<^verbatim>\<open>[^\n]\<close>\<close>
  "not_nl = Cls True [CC newline]"

definition words :: "string list \<Rightarrow> regex" where
  \<comment> \<open>literal words with \<^verbatim>\<open>\s+\<close> between them\<close>
  "words ws = seqs (case ws of [] \<Rightarrow> [] | x # xs \<Rightarrow> lit x # concat (map (\<lambda>y. [sp, lit y]) xs))"

definition dollar :: regex where
  \<comment> \<open>\<^verbatim>\<open>\$?\<close>, also written \<^verbatim>\<open>[\$]?\<close>\<close>
  "dollar = opt (Lit (CHR ''$''))"

definition money :: regex where
  \<comment> \<open>\<^verbatim>\<open>[\d,\.]+\<close>\<close>
  "money = plus (Cls False [Cd, CC (CHR '',''), CC (CHR ''.'')])"

definition digits_commas :: regex where
  \<comment> \<open>\<^verbatim>\<open>[\d,]+\<close>\<close>
  "digits_commas = plus (Cls False [Cd, CC (CHR '','')])"

definition digits_dashes :: regex where
  \<comment> \<open>\<^verbatim>\<open>[\d-]+\<close>\<close>
  "digits_dashes = plus (Cls False [Cd, CC (CHR ''-'')])"

definition digits_slashes :: regex where
  \<comment> \<open>\<^verbatim>\<open>[\d/]+\<close>\<close>
  "digits_slashes = plus (Cls False [Cd, CC (CHR ''/'')])"

definition digits_colons :: regex where
  \<comment> \<open>\<^verbatim>\<open>[\d:]+\<close>\<close>
  "digits_colons = plus (Cls False [Cd, CC (CHR '':'')])"

section \<open>Python values\<close>

datatype error = ValueError | ZeroDivisionError

definition ebind :: "error + 'a \<Rightarrow> ('a \<Rightarrow> error + 'b) \<Rightarrow> error + 'b" where
  \<comment> \<open>an exception raised by the first step is the outcome of the whole\<close>
  "ebind m f = (case m of Inl e \<Rightarrow> Inl e | Inr x \<Rightarrow> f x)"

fun emap :: "('a \<Rightarrow> error + 'b) \<Rightarrow> 'a list \<Rightarrow> error + 'b list" where
  \<comment> \<open>a list comprehension or loop whose body may raise\<close>
  "emap f [] = Inr []"
| "emap f (x # xs) = ebind (f x) (\<lambda>y. ebind (emap f xs) (\<lambda>ys. Inr (y # ys)))"

subsection \<open>Floats\<close>

text \<open>
  A Python \<^verbatim>\<open>float\<close> is an IEEE 754 binary64 number. A finite one is modelled by its
  exact rational value; every operation computes the exact result and rounds it to
  the nearest binary64 number, ties to the even significand, as the hardware does.
  The two zeros are not told apart (they are equal in Python).
\<close>

datatype pyfloat = Fin rat | PInf | NInf | NaN

definition pow2 :: "int \<Rightarrow> rat" where
  "pow2 k = (if 0 \<le> k then 2 ^ nat k else 1 / 2 ^ nat (- k))"

definition rat_exp :: "rat \<Rightarrow> int" where
  \<comment> \<open>for \<open>0 < x\<close>, the exponent \<open>k\<close> with \<open>2 ^ k \<le> x < 2 ^ (k + 1)\<close>\<close>
  "rat_exp x =
     (let k = bitlen (fst (quotient_of x)) - bitlen (snd (quotient_of x))
      in if pow2 k \<le> x then k else k - 1)"

definition rne :: "rat \<Rightarrow> int" where
  \<comment> \<open>the nearest integer, a tie going to the even one\<close>
  "rne y =
     (let f = \<lfloor>y\<rfloor>; r = y - of_int f
      in if r < 1 / 2 then f else if 1 / 2 < r then f + 1 else if even f then f else f + 1)"

definition round_double :: "rat \<Rightarrow> pyfloat" where
  \<comment> \<open>53 significant bits, exponents from -1074 (subnormal) up; the rounded value
      \<open>m * 2 ^ e\<close> overflows to infinity when it reaches \<open>2 ^ 1024\<close>, that is when
      \<open>971 < e\<close>, or \<open>e = 971\<close> and the significand was rounded up to \<open>2 ^ 53\<close>\<close>
  "round_double x =
     (if x = 0 then Fin 0
      else let a = \<bar>x\<bar>;
               e = max (rat_exp a - 52) (- 1074);
               m = rne (a / pow2 e)
           in if 971 < e \<or> (e = 971 \<and> m = 2 ^ 53) then (if 0 < x then PInf else NInf)
              else Fin (if 0 < x then of_int m * pow2 e else - (of_int m * pow2 e)))"

fun fadd :: "pyfloat \<Rightarrow> pyfloat \<Rightarrow> pyfloat" where
  "fadd (Fin a) (Fin b) = round_double (a + b)"
| "fadd NaN y = NaN"
| "fadd x NaN = NaN"
| "fadd PInf NInf = NaN"
| "fadd NInf PInf = NaN"
| "fadd PInf y = PInf"
| "fadd NInf y = NInf"
| "fadd x PInf = PInf"
| "fadd x NInf = NInf"

fun py_truediv :: "pyfloat \<Rightarrow> pyfloat \<Rightarrow> error + pyfloat" where
  \<comment> \<open>\<^verbatim>\<open>x / y\<close> on floats; a zero divisor raises\<close>
  "py_truediv (Fin a) (Fin b) =
     (if b = 0 then Inl ZeroDivisionError else Inr (round_double (a / b)))"
| "py_truediv NaN y = (if y = Fin 0 then Inl ZeroDivisionError else Inr NaN)"
| "py_truediv x NaN = Inr NaN"
| "py_truediv (Fin a) y = Inr (Fin 0)"
| "py_truediv PInf (Fin b) =
     (if b = 0 then Inl ZeroDivisionError else Inr (if 0 < b then PInf else NInf))"
| "py_truediv NInf (Fin b) =
     (if b = 0 then Inl ZeroDivisionError else Inr (if 0 < b then NInf else PInf))"
| "py_truediv x y = Inr NaN"

fun fless :: "pyfloat \<Rightarrow> pyfloat \<Rightarrow> bool" where
  \<comment> \<open>\<^verbatim>\<open>x < y\<close>; every comparison with NaN is false\<close>
  "fless (Fin a) (Fin b) = (a < b)"
| "fless NaN y = False"
| "fless x NaN = False"
| "fless x NInf = False"
| "fless PInf y = False"
| "fless NInf y = True"
| "fless x PInf = True"

definition fle :: "pyfloat \<Rightarrow> pyfloat \<Rightarrow> bool" where
  \<comment> \<open>\<^verbatim>\<open>x <= y\<close>\<close>
  "fle x y = (x \<noteq> NaN \<and> y \<noteq> NaN \<and> (x = y \<or> fless x y))"

definition int_to_float :: "int \<Rightarrow> pyfloat" where
  \<comment> \<open>the conversion of an \<^verbatim>\<open>int\<close> operand in mixed arithmetic\<close>
  "int_to_float n = round_double (of_int n)"

definition float_literal :: "rat \<Rightarrow> pyfloat" where
  \<comment> \<open>a decimal literal of the source, such as \<^verbatim>\<open>5549.56\<close>\<close>
  "float_literal q = round_double q"

definition py_sum :: "pyfloat list \<Rightarrow> pyfloat" where
  \<comment> \<open>\<^verbatim>\<open>sum(xs)\<close> on a list of floats: from the left, starting at the integer 0, each
      addition rounded (interpreters from 3.12 on compensate the rounding errors; the
      two agree whenever all partial sums are exact)\<close>
  "py_sum xs = foldl fadd (int_to_float 0) xs"

definition py_max :: "pyfloat \<Rightarrow> pyfloat list \<Rightarrow> pyfloat" where
  \<comment> \<open>\<^verbatim>\<open>max\<close> of the non-empty list \<open>x # xs\<close>: a later item replaces the current one
      when it is greater\<close>
  "py_max x xs = foldl (\<lambda>m y. if fless m y then y else m) x xs"

definition py_min :: "pyfloat \<Rightarrow> pyfloat list \<Rightarrow> pyfloat" where
  \<comment> \<open>\<^verbatim>\<open>min\<close> of the non-empty list \<open>x # xs\<close>\<close>
  "py_min x xs = foldl (\<lambda>m y. if fless y m then y else m) x xs"

subsection \<open>Reading numbers\<close>

definition digits_val :: "string \<Rightarrow> int" where
  "digits_val s = foldl (\<lambda>a c. 10 * a + (code c - 48)) 0 s"

definition py_float :: "string \<Rightarrow> error + pyfloat" where
  \<comment> \<open>\<^verbatim>\<open>float(s)\<close> on the strings the extractors pass: an optional sign, digits, at
      most one point, at least one digit; anything else of these characters raises
      ValueError. (The extractors build \<open>s\<close> from captures of digit classes, so the
      other forms \<^verbatim>\<open>float\<close> reads - exponents, blanks, underscores, names - do not
      reach it.) The decimal value is rounded correctly.\<close>
  "py_float s =
     (let neg = (s \<noteq> [] \<and> hd s = CHR ''-'');
          body = (if s \<noteq> [] \<and> (hd s = CHR ''-'' \<or> hd s = CHR ''+'') then tl s else s);
          ip = takeWhile is_digit body;
          rest = dropWhile is_digit body;
          fp = (if rest = [] then [] else tl rest);
          ok = (rest = [] \<or> (hd rest = CHR ''.'' \<and> list_all is_digit fp));
          v = of_int (digits_val ip) + of_int (digits_val fp) / 10 ^ length fp
      in if ok \<and> (ip \<noteq> [] \<or> fp \<noteq> [])
         then Inr (round_double (if neg then - v else v))
         else Inl ValueError)"

definition py_int :: "string \<Rightarrow> error + int" where
  \<comment> \<open>\<^verbatim>\<open>int(s)\<close> on a capture of \<^verbatim>\<open>\d+\<close>. (The interpreter's configurable limit on
      the number of digits is not part of the model.)\<close>
  "py_int s = (if s \<noteq> [] \<and> list_all is_digit s then Inr (digits_val s)
               else Inl ValueError)"

subsection \<open>Dictionaries\<close>

text \<open>
  The values the extractors store are strings, floats, integers and lists of
  strings or floats. A section is a \<^verbatim>\<open>dict\<close> built by successive assignments; it
  is modelled as an association list in insertion order, where assigning to a key
  already present replaces its value in place.
\<close>

datatype pyval = PStr string | PFloat pyfloat | PInt int | PStrs "string list"
  | PFloats "pyfloat list"

type_synonym 'v dict = "(string \<times> 'v) list"

fun dset :: "string \<Rightarrow> 'v \<Rightarrow> 'v dict \<Rightarrow> 'v dict" where
  \<comment> \<open>\<^verbatim>\<open>d[k] = v\<close>\<close>
  "dset k v [] = [(k, v)]"
| "dset k v ((k', v') # kvs) = (if k = k' then (k, v) # kvs else (k', v') # dset k v kvs)"

definition dget :: "string \<Rightarrow> 'v dict \<Rightarrow> 'v option" where
  \<comment> \<open>\<^verbatim>\<open>d.get(k)\<close>\<close>
  "dget k kvs = map_of kvs k"

definition has_key :: "string \<Rightarrow> 'v dict \<Rightarrow> bool" where
  \<comment> \<open>\<^verbatim>\<open>k in d\<close>\<close>
  "has_key k kvs = (dget k kvs \<noteq> None)"

definition keys :: "'v dict \<Rightarrow> string list" where
  "keys kvs = map fst kvs"

definition set_str :: "string \<Rightarrow> rematch option \<Rightarrow> nat \<Rightarrow> pyval dict \<Rightarrow> pyval dict" where
  \<comment> \<open>\<^verbatim>\<open>if match: d[k] = match.group(n)\<close>\<close>
  "set_str k m n kvs = (case m of None \<Rightarrow> kvs | Some x \<Rightarrow> dset k (PStr (mgroup x n)) kvs)"

definition set_stripped :: "string \<Rightarrow> rematch option \<Rightarrow> nat \<Rightarrow> pyval dict \<Rightarrow> pyval dict" where
  \<comment> \<open>\<^verbatim>\<open>if match: d[k] = match.group(n).strip()\<close>\<close>
  "set_stripped k m n kvs =
     (case m of None \<Rightarrow> kvs | Some x \<Rightarrow> dset k (PStr (strip (mgroup x n))) kvs)"

definition set_const :: "string \<Rightarrow> rematch option \<Rightarrow> string \<Rightarrow> pyval dict \<Rightarrow> pyval dict" where
  \<comment> \<open>\<^verbatim>\<open>if match: d[k] = 'a fixed text'\<close>\<close>
  "set_const k m v kvs = (case m of None \<Rightarrow> kvs | Some x \<Rightarrow> dset k (PStr v) kvs)"

definition set_float :: "string \<Rightarrow> rematch option \<Rightarrow> (string \<Rightarrow> string) \<Rightarrow> pyval dict
    \<Rightarrow> error + pyval dict" where
  \<comment> \<open>\<^verbatim>\<open>if match: d[k] = float(clean(match.group(1)))\<close>, outside any \<^verbatim>\<open>try\<close>\<close>
  "set_float k m clean kvs =
     (case m of None \<Rightarrow> Inr kvs
      | Some x \<Rightarrow> ebind (py_float (clean (mgroup x 1))) (\<lambda>v. Inr (dset k (PFloat v) kvs)))"

definition remdups_first :: "string list \<Rightarrow> string list" where
  \<comment> \<open>\<^verbatim>\<open>list(set(xs))\<close>: the distinct items. Python fixes no order for them; the model
      lists them by first occurrence, and no statement below depends on the order.\<close>
  "remdups_first xs = rev (remdups (rev xs))"

datatype seccion = Fields "pyval dict" | Items "pyval dict list"

definition no_commas_dots :: "string \<Rightarrow> string" where
  \<comment> \<open>\<^verbatim>\<open>s.replace(',', '').replace('.', '')\<close>\<close>
  "no_commas_dots s = py_replace ''.'' [] (py_replace '','' [] s)"

definition no_commas :: "string \<Rightarrow> string" where
  \<comment> \<open>\<^verbatim>\<open>s.replace(',', '')\<close>\<close>
  "no_commas s = py_replace '','' [] s"

definition no_dots :: "string \<Rightarrow> string" where
  \<comment> \<open>\<^verbatim>\<open>s.replace('.', '')\<close>\<close>
  "no_dots s = py_replace ''.'' [] s"

section \<open>The Air-e extractor (\<^verbatim>\<open>src/air-e/data_extractor.py\<close>)\<close>

text \<open>
  Accented letters are written by code point: \<open>0xE1\<close>, \<open>0xE9\<close>, \<open>0xED\<close>, \<open>0xF3\<close>
  and \<open>0xFA\<close> are the acute a, e, i, o and u, \<open>0xD3\<close> the capital acute O.
\<close>

definition Direccion :: string where
  "Direccion = ''Direcci'' @ [CHR 0xF3] @ ''n''"

subsection \<open>\<^verbatim>\<open>extraer_informacion_general\<close>\<close>

definition patron_nic :: regex where
  "patron_nic = seqs [lit ''NIC:'', sp0, Grp 1 (plus d)]"

definition patron_doc :: regex where
  "patron_doc = seqs [words [''Documento'', ''Equivalente:''], sp0, Grp 1 (plus d)]"

definition patron_id_cobros :: regex where
  "patron_id_cobros = seqs [words [''ID'', ''de'', ''Cobros:''], sp0, Grp 1 (plus d)]"

definition patron_total_aire :: regex where
  \<comment> \<open>\<^verbatim>\<open>TOTAL\s+A\s+PAGAR\s+\$?([\d,\.]+)\<close>\<close>
  "patron_total_aire = seqs [words [''TOTAL'', ''A'', ''PAGAR''], sp, dollar, Grp 1 money]"

definition patron_periodo_fact :: regex where
  "patron_periodo_fact = seqs [words [''Periodo'', ''facturado'', ''al''], sp, Grp 1 digits_slashes]"

definition patron_uso_general :: regex where
  "patron_uso_general = seqs [words [''Peaje'', ''Nivel''], sp, Grp 1 (plus d)]"

definition extraer_informacion_general_aire :: "string \<Rightarrow> error + pyval dict" where
  "extraer_informacion_general_aire texto =
     (let info = [];
          info = set_str ''nic'' (re_search patron_nic texto []) 1 info;
          info = set_str ''documento_equivalente'' (re_search patron_doc texto []) 1 info;
          info = set_str ''id_cobros'' (re_search patron_id_cobros texto []) 1 info;
          matches = re_findall1 patron_total_aire texto [IGNORECASE]
      in ebind (if matches \<noteq> []
                then ebind (py_float (no_commas_dots (last matches)))
                       (\<lambda>v. Inr (dset ''total_pagar'' (PFloat v) info))
                else Inr info)
           (\<lambda>info.
              let info = set_str ''periodo_facturado_hasta''
                           (re_search patron_periodo_fact texto []) 1 info;
                  info = set_str ''peaje_nivel'' (re_search patron_uso_general texto []) 1 info
              in Inr info))"

subsection \<open>\<^verbatim>\<open>extraer_datos_cliente\<close>\<close>

definition patron_cliente :: regex where
  \<comment> \<open>\<^verbatim>\<open>Cliente:\s*([^\n]+)\<close>\<close>
  "patron_cliente = seqs [lit ''Cliente:'', sp0, Grp 1 (plus not_nl)]"

definition patron_cliente_alt :: regex where
  "patron_cliente_alt =
     words [''GENERADORA'', ''Y'', ''COMERCIALIZADORA'', ''DE'', ''ENERGIA'', ''DEL'', ''CARIBE'']"

definition patron_nit_cliente :: regex where
  \<comment> \<open>\<^verbatim>\<open>NIT\s+o\s+C\.C:\s*([\d-]+)\<close>\<close>
  "patron_nit_cliente = seqs [words [''NIT'', ''o'', ''C.C:''], sp0, Grp 1 digits_dashes]"

definition patron_direccion_aire :: regex where
  "patron_direccion_aire =
     seqs [words [Direccion, ''del'', ''env'' @ [CHR 0xED] @ ''o:''], sp0, Grp 1 (plus not_nl)]"

definition patron_planta :: regex where
  "patron_planta = seqs [words [Direccion, ''de'', ''planta:''], sp0, Grp 1 (plus not_nl)]"

definition patron_municipio_aire :: regex where
  "patron_municipio_aire = seqs [lit ''Municipio:'', sp0, Grp 1 (plus w)]"

definition patron_depto :: regex where
  "patron_depto = seqs [lit ''Departamento:'', sp0, Grp 1 (plus w)]"

definition patron_contrato :: regex where
  "patron_contrato = seqs [words [''Contrato'', ''No:''], sp0, Grp 1 (plus not_nl)]"

definition patron_uso_cliente :: regex where
  "patron_uso_cliente = seqs [lit ''Uso:'', sp0, words [''Peaje'', ''Nivel''], sp, Grp 1 (plus d)]"

definition patron_tension :: regex where
  "patron_tension =
     seqs [words [''Nivel'', ''de'', ''tensi'' @ [CHR 0xF3] @ ''n:''], sp0, Grp 1 (plus not_nl)]"

definition extraer_datos_cliente_aire :: "string \<Rightarrow> pyval dict" where
  "extraer_datos_cliente_aire texto =
     (let datos = [];
          datos = set_stripped ''nombre'' (re_search patron_cliente texto []) 1 datos;
          datos = (if \<not> has_key ''nombre'' datos
                   then set_const ''nombre'' (re_search patron_cliente_alt texto [])
                          ''GENERADORA Y COMERCIALIZADORA DE ENERGIA DEL CARIBE'' datos
                   else datos);
          datos = set_str ''nit'' (re_search patron_nit_cliente texto []) 1 datos;
          datos = set_stripped ''direccion'' (re_search patron_direccion_aire texto []) 1 datos;
          datos = set_stripped ''direccion_planta'' (re_search patron_planta texto []) 1 datos;
          datos = set_str ''municipio'' (re_search patron_municipio_aire texto []) 1 datos;
          datos = set_str ''departamento'' (re_search patron_depto texto []) 1 datos;
          datos = set_stripped ''contrato'' (re_search patron_contrato texto []) 1 datos;
          datos = set_str ''uso_peaje_nivel'' (re_search patron_uso_cliente texto []) 1 datos;
          datos = set_stripped ''nivel_tension'' (re_search patron_tension texto []) 1 datos
      in datos)"

subsection \<open>\<^verbatim>\<open>extraer_datos_operador\<close>\<close>

definition patron_operador :: regex where
  "patron_operador =
     words [''Informaci'' @ [CHR 0xF3] @ ''n'', ''del'', ''Operador'', ''de'', ''Red'',
            ''AIR-E'', ''S.A.S'', ''ESP'']"

definition patron_nit_operador :: regex where
  "patron_nit_operador =
     seqs [words [''AIR-E'', ''S.A.S'', ''ESP'', ''NIT:''], sp0, Grp 1 digits_dashes]"

definition patron_linea115 :: regex where
  "patron_linea115 =
     seqs [words [''L'' @ [CHR 0xED] @ ''nea'', ''115:''], sp0, Grp 1 (plus not_nl)]"

definition patron_linea_gratuita :: regex where
  "patron_linea_gratuita = seqs [lit ''018000-930135:'', sp0, Grp 1 (plus not_nl)]"

definition patron_linea_fija :: regex where
  "patron_linea_fija = seqs [lit ''605-3225016:'', sp0, Grp 1 (plus not_nl)]"

definition patron_dir_operador :: regex where
  \<comment> \<open>\<^verbatim>\<open>Direcci\'on:\s*CR\s+57\s+CL\s+99A[^\n]+\<close>\<close>
  "patron_dir_operador =
     seqs [lit (Direccion @ '':''), sp0, words [''CR'', ''57'', ''CL'', ''99A''], plus not_nl]"

definition patron_pbx :: regex where
  \<comment> \<open>\<^verbatim>\<open>PBX:\s*\(([\d]+)\)([\d]+)\<close>\<close>
  "patron_pbx = seqs [lit ''PBX:'', sp0, lit ''('', Grp 1 (plus d), lit '')'', Grp 2 (plus d)]"

definition patron_web :: regex where
  "patron_web = lit ''https://www.air-e.com/''"

definition extraer_datos_operador :: "string \<Rightarrow> pyval dict" where
  "extraer_datos_operador texto =
     (let datos = [];
          datos = set_const ''nombre'' (re_search patron_operador texto []) ''AIR-E S.A.S ESP'' datos;
          datos = set_str ''nit'' (re_search patron_nit_operador texto []) 1 datos;
          datos = set_stripped ''linea_115'' (re_search patron_linea115 texto []) 1 datos;
          datos = set_const ''linea_gratuita'' (re_search patron_linea_gratuita texto [])
                    ''018000-930135'' datos;
          datos = set_const ''linea_fija'' (re_search patron_linea_fija texto [])
                    ''605-3225016'' datos;
          datos = (case re_search patron_dir_operador texto [] of None \<Rightarrow> datos
                   | Some m \<Rightarrow>
                       dset ''direccion''
                         (PStr (strip (py_replace (Direccion @ '':'') [] (mgroup m 0)))) datos);
          datos = (case re_search patron_pbx texto [] of None \<Rightarrow> datos
                   | Some m \<Rightarrow>
                       dset ''pbx'' (PStr (''('' @ mgroup m 1 @ '')'' @ mgroup m 2)) datos);
          datos = set_str ''website'' (re_search patron_web texto []) 0 datos
      in datos)"

subsection \<open>\<^verbatim>\<open>extraer_periodo_facturacion\<close>\<close>

definition patron_periodo_aire :: regex where
  "patron_periodo_aire = seqs [words [''Periodo'', ''facturado:''], sp0, Grp 1 digits_slashes]"

definition patron_emision :: regex where
  \<comment> \<open>\<^verbatim>\<open>Fecha\s+de\s+Emisi\'on:\s*([\d/]+\s+[\d:]+)\<close>\<close>
  "patron_emision =
     seqs [words [''Fecha'', ''de'', ''Emisi'' @ [CHR 0xF3] @ ''n:''], sp0,
           Grp 1 (seqs [digits_slashes, sp, digits_colons])]"

definition fecha_dmy :: regex where
  \<comment> \<open>\<^verbatim>\<open>\d{2}/\d{2}/\d{4}\<close>\<close>
  "fecha_dmy = seqs [times 2 d, lit ''/'', times 2 d, lit ''/'', times 4 d]"

definition patron_fecha_alt :: regex where
  \<comment> \<open>\<^verbatim>\<open>(\d{2}/\d{2}/\d{4}\s+\d{2}:\d{2}:\d{2})\<close>\<close>
  "patron_fecha_alt =
     Grp 1 (seqs [fecha_dmy, sp, times 2 d, lit '':'', times 2 d, lit '':'', times 2 d])"

definition patron_ciudad_fecha :: regex where
  "patron_ciudad_fecha = seqs [lit ''Barranquilla'', sp, Grp 1 fecha_dmy]"

definition patron_vencimiento_aire :: regex where
  "patron_vencimiento_aire =
     seqs [words [''Pagar'', ''antes'', ''del:''], sp0, Grp 1 digits_slashes]"

definition patron_dias :: regex where
  "patron_dias = seqs [words [''D'' @ [CHR 0xED] @ ''as'', ''facturados:''], sp0, Grp 1 (plus d)]"

definition extraer_periodo_facturacion_aire :: "string \<Rightarrow> pyval dict" where
  "extraer_periodo_facturacion_aire texto =
     (let periodo = [];
          periodo = set_str ''periodo_facturado''
                      (re_search patron_periodo_aire texto [IGNORECASE]) 1 periodo;
          periodo = set_str ''fecha_emision''
                      (re_search patron_emision texto [IGNORECASE]) 1 periodo;
          periodo = (if \<not> has_key ''fecha_emision'' periodo
                     then set_str ''fecha_emision'' (re_search patron_fecha_alt texto []) 1 periodo
                     else periodo);
          matches = re_findall1 patron_ciudad_fecha texto [];
          periodo = (if matches \<noteq> [] then dset ''fecha_ciudad'' (PStr (hd matches)) periodo
                     else periodo);
          periodo = set_str ''fecha_vencimiento''
                      (re_search patron_vencimiento_aire texto [IGNORECASE]) 1 periodo;
          periodo = set_str ''dias_facturados'' (re_search patron_dias texto []) 1 periodo
      in periodo)"

subsection \<open>\<^verbatim>\<open>extraer_conceptos_facturados\<close>\<close>

definition patron_detalle :: regex where
  \<comment> \<open>\<^verbatim>\<open>Detalle\s+del\s+cobro.*?Conceptos\s+facturados\s+Valores\<close>\<close>
  "patron_detalle =
     seqs [words [''Detalle'', ''del'', ''cobro''], Star False Dot,
           words [''Conceptos'', ''facturados'', ''Valores'']]"

definition patron_peaje :: regex where
  "patron_peaje = seqs [words [''Peaje'', ''No'', ''Regulado''], sp, dollar, Grp 1 money]"

definition patron_penalizacion :: regex where
  "patron_penalizacion =
     seqs [words [''Penalizacion'', ''Energia'', ''Reactiva'', ''-'', ''Peajes''], sp, dollar,
           Grp 1 money]"

definition patron_ajuste :: regex where
  \<comment> \<open>\<^verbatim>\<open>AJUSTE\s+MONETARIO\s+\$?(-?[\d,\.]+)\<close>\<close>
  "patron_ajuste =
     seqs [words [''AJUSTE'', ''MONETARIO''], sp, dollar, Grp 1 (Seq (opt (Lit (CHR ''-''))) money)]"

definition patron_cprog :: regex where
  "patron_cprog = seqs [lit ''CPROG_PEAJES'', sp, dollar, Grp 1 money]"

definition patron_valores_tabla :: regex where
  \<comment> \<open>\<^verbatim>\<open>([A-Z][A-Za-z\s_-]+?)\s+\$?([\d]{1,3}(?:\.[\d]{3})*(?:,\d{2})?)\<close>\<close>
  "patron_valores_tabla =
     seqs [Grp 1 (Seq (Cls False [CR (CHR ''A'') (CHR ''Z'')])
                      (plus_lazy (Cls False [CR (CHR ''A'') (CHR ''Z''), CR (CHR ''a'') (CHR ''z''),
                                             Cs, CC (CHR ''_''), CC (CHR ''-'')]))),
           sp, dollar,
           Grp 2 (seqs [between 1 3 d, Star True (Seq (Lit (CHR ''.'')) (times 3 d)),
                        opt (Seq (Lit (CHR '','')) (times 2 d))])]"

definition item_aire :: "string \<Rightarrow> pyfloat \<Rightarrow> pyval dict" where
  \<comment> \<open>\<^verbatim>\<open>{'concepto': nombre, 'valor': valor}\<close>\<close>
  "item_aire nombre valor = [(''concepto'', PStr nombre), (''valor'', PFloat valor)]"

definition append_concepto :: "regex \<Rightarrow> string \<Rightarrow> string \<Rightarrow> pyval dict list
    \<Rightarrow> error + pyval dict list" where
  \<comment> \<open>one of the four concepts looked for after the header: the captured amount
      without its separators, read as a float and divided by 100\<close>
  "append_concepto patron nombre texto conceptos =
     (case re_search patron texto [] of None \<Rightarrow> Inr conceptos
      | Some m \<Rightarrow>
          ebind (py_float (no_commas_dots (mgroup m 1)))
            (\<lambda>f. ebind (py_truediv f (int_to_float 100))
               (\<lambda>v. Inr (conceptos @ [item_aire nombre v]))))"

definition Penalizacion_Energia :: string where
  \<comment> \<open>the name stored for the second concept, with its two accents\<close>
  "Penalizacion_Energia =
     ''Penalizaci'' @ [CHR 0xF3] @ ''n Energ'' @ [CHR 0xED] @ ''a Reactiva - Peajes''"

definition tier_a_aire :: "string \<Rightarrow> error + pyval dict list" where
  \<comment> \<open>first method: the section header, then the four known concepts\<close>
  "tier_a_aire texto =
     (if re_search patron_detalle texto [DOTALL, IGNORECASE] \<noteq> None
      then ebind (append_concepto patron_peaje ''Peaje No Regulado'' texto [])
             (\<lambda>conceptos. ebind (append_concepto patron_penalizacion Penalizacion_Energia
                                    texto conceptos)
               (\<lambda>conceptos. ebind (append_concepto patron_ajuste ''AJUSTE MONETARIO''
                                      texto conceptos)
                 (\<lambda>conceptos. append_concepto patron_cprog ''CPROG_PEAJES'' texto conceptos)))
      else Inr [])"

definition tier_b_item :: "string \<times> string \<Rightarrow> pyval dict list" where
  \<comment> \<open>the body of the loop over the matches of the second method; a value that does
      not read as a float is passed over (\<^verbatim>\<open>except: continue\<close>)\<close>
  "tier_b_item nv =
     (if list_ex (\<lambda>palabra. contains palabra (py_upper (fst nv)))
           [''PEAJE'', ''ENERGIA'', ''AJUSTE'', ''CPROG'']
      then (case py_float (py_replace '','' ''.'' (no_dots (snd nv))) of
              Inl e \<Rightarrow> []
            | Inr valor \<Rightarrow>
                if fless (int_to_float 0) valor then [item_aire (strip (fst nv)) valor] else [])
      else [])"

definition tier_b_aire :: "string \<Rightarrow> pyval dict list" where
  \<comment> \<open>second method: every name followed by an amount, anywhere in the text\<close>
  "tier_b_aire texto = concat (map tier_b_item (re_findall2 patron_valores_tabla texto []))"

definition valores_especificos :: "pyval dict list" where
  \<comment> \<open>last resort: the four lines of one known invoice\<close>
  "valores_especificos =
     [item_aire ''Peaje No Regulado'' (float_literal (2475438567 / 100)),
      item_aire Penalizacion_Energia (float_literal (554956 / 100)),
      item_aire ''AJUSTE MONETARIO'' (float_literal (- 23 / 100)),
      item_aire ''CPROG_PEAJES'' (float_literal 316994835)]"

definition extraer_conceptos_facturados_aire :: "string \<Rightarrow> error + pyval dict list" where
  "extraer_conceptos_facturados_aire texto =
     ebind (tier_a_aire texto)
       (\<lambda>conceptos.
          let conceptos = (if conceptos = [] then tier_b_aire texto else conceptos);
              conceptos = (if conceptos = [] then valores_especificos else conceptos)
          in Inr conceptos)"

subsection \<open>\<^verbatim>\<open>extraer_informacion_pago\<close>\<close>

definition patron_subtotal :: regex where
  "patron_subtotal = seqs [words [''Subtotal'', ''Energia''], sp, dollar, Grp 1 money]"

definition patron_deuda :: regex where
  "patron_deuda = seqs [words [''Deuda'', ''facturas'', ''anteriores''], sp, dollar, Grp 1 money]"

definition patron_mensual :: regex where
  "patron_mensual =
     seqs [words [''Facturaci'' @ [CHR 0xF3] @ ''n'', ''Mensual''], sp, dollar, Grp 1 money]"

definition patron_saldo :: regex where
  "patron_saldo = seqs [words [''Saldo'', ''Actual''], sp, dollar, Grp 1 money]"

definition patron_interes :: regex where
  \<comment> \<open>\<^verbatim>\<open>Tasa\s+inter\'es\s+por\s+mora:\s*([\d,\.]+)%\<close>\<close>
  "patron_interes =
     seqs [words [''Tasa'', ''inter'' @ [CHR 0xE9] @ ''s'', ''por'', ''mora:''], sp0,
           Grp 1 money, lit ''%'']"

definition patron_id_cobro :: regex where
  "patron_id_cobro = seqs [words [''Id'', ''Cobro:''], sp0, Grp 1 (plus d)]"

definition extraer_informacion_pago_aire :: "string \<Rightarrow> error + pyval dict" where
  "extraer_informacion_pago_aire texto =
     ebind (set_float ''subtotal_energia'' (re_search patron_subtotal texto [IGNORECASE])
              no_commas_dots [])
       (\<lambda>pago. ebind (set_float ''deuda_anterior'' (re_search patron_deuda texto [IGNORECASE])
                        no_commas_dots pago)
          (\<lambda>pago. ebind (set_float ''facturacion_mensual''
                           (re_search patron_mensual texto [IGNORECASE]) no_commas_dots pago)
             (\<lambda>pago. ebind (set_float ''saldo_actual''
                              (re_search patron_saldo texto [IGNORECASE]) no_commas_dots pago)
                (\<lambda>pago.
                   let pago = set_str ''tasa_interes_mora''
                                (re_search patron_interes texto [IGNORECASE]) 1 pago;
                       pago = set_str ''id_cobro''
                                (re_search patron_id_cobro texto [IGNORECASE]) 1 pago
                   in Inr pago))))"

subsection \<open>\<^verbatim>\<open>extraer_datos_tecnicos\<close>\<close>

definition patron_sistema_aire :: regex where
  "patron_sistema_aire =
     words [''Datos'', ''sistema'', ''inform'' @ [CHR 0xE1] @ ''tico'', ''OPEN'',
            ''INTERNATIONAL'', ''S.A.S'']"

definition patron_nit_sistema :: regex where
  "patron_nit_sistema = seqs [words [''OPEN'', ''INTERNATIONAL'', ''S.A.S''], sp, Grp 1 (plus d)]"

definition patron_software :: regex where
  "patron_software = words [''Open'', ''Smartflex'']"

definition patron_banco :: regex where
  \<comment> \<open>\<^verbatim>\<open>cuenta\s+de\s+ahorro\s+No\s+([\d-]+)\s+del\s+banco\s+de\s+(\w+)\<close>\<close>
  "patron_banco =
     seqs [words [''cuenta'', ''de'', ''ahorro'', ''No''], sp, Grp 1 digits_dashes, sp,
           words [''del'', ''banco'', ''de''], sp, Grp 2 (plus w)]"

definition patron_fiduciaria :: regex where
  "patron_fiduciaria = seqs [words [''FIDUOCCIDENTE'', ''FID''], sp, Grp 1 (plus d)]"

definition extraer_datos_tecnicos_aire :: "string \<Rightarrow> pyval dict" where
  "extraer_datos_tecnicos_aire texto =
     (let tecnicos = [];
          tecnicos = set_const ''sistema'' (re_search patron_sistema_aire texto [])
                       ''OPEN INTERNATIONAL S.A.S'' tecnicos;
          tecnicos = set_str ''nit_sistema'' (re_search patron_nit_sistema texto []) 1 tecnicos;
          tecnicos = set_const ''software'' (re_search patron_software texto [])
                       ''Open Smartflex'' tecnicos;
          m = re_search patron_banco texto [IGNORECASE];
          tecnicos = set_str ''banco'' m 2 (set_str ''cuenta_bancaria'' m 1 tecnicos);
          tecnicos = set_str ''fiduciaria_fid'' (re_search patron_fiduciaria texto []) 1 tecnicos
      in tecnicos)"

subsection \<open>\<^verbatim>\<open>extraer_totales\<close>\<close>

definition patron_total_pagar :: regex where
  "patron_total_pagar = seqs [words [''Total'', ''a'', ''pagar'', ''mes''], sp, dollar, Grp 1 money]"

definition patron_total_general :: regex where
  \<comment> \<open>\<^verbatim>\<open>\$?(341\.754\.770)\<close>\<close>
  "patron_total_general = seqs [dollar, Grp 1 (lit ''341.754.770'')]"

definition patron_valores_aire :: regex where
  \<comment> \<open>\<^verbatim>\<open>\$?([\d]{7,}(?:\.[\d]{3})*)\<close>\<close>
  "patron_valores_aire =
     seqs [dollar, Grp 1 (Seq (at_least 7 d) (Star True (Seq (Lit (CHR ''.'')) (times 3 d))))]"

definition estadisticas :: "pyfloat list \<Rightarrow> pyval dict \<Rightarrow> error + pyval dict" where
  \<comment> \<open>the four assignments both families make for a non-empty list of values\<close>
  "estadisticas valores totales =
     (case valores of [] \<Rightarrow> Inr totales
      | v # vs \<Rightarrow>
          (let totales = dset ''valores_encontrados'' (PFloats valores) totales;
               totales = dset ''valor_maximo'' (PFloat (py_max v vs)) totales;
               totales = dset ''valor_minimo'' (PFloat (py_min v vs)) totales
           in ebind (py_truediv (py_sum valores) (int_to_float (int (length valores))))
                (\<lambda>promedio. Inr (dset ''promedio_valores'' (PFloat promedio) totales))))"

definition valores_aire :: "string list \<Rightarrow> pyfloat list" where
  \<comment> \<open>the loop that reads each token, passing over one that does not read as a float\<close>
  "valores_aire matches =
     concat (map (\<lambda>m. case py_float (no_dots m) of Inl e \<Rightarrow> [] | Inr valor \<Rightarrow> [valor]) matches)"

definition extraer_totales_aire :: "string \<Rightarrow> error + pyval dict" where
  "extraer_totales_aire texto =
     ebind (set_float ''total_pagar_mes'' (re_search patron_total_pagar texto [IGNORECASE])
              no_commas_dots [])
       (\<lambda>totales.
          let matches = re_findall1 patron_total_general texto []
          in ebind (if matches \<noteq> []
                    then ebind (py_float (no_dots (hd matches)))
                           (\<lambda>v. Inr (dset ''total_general'' (PFloat v) totales))
                    else Inr totales)
               (\<lambda>totales.
                  let matches = re_findall1 patron_valores_aire texto []
                  in if matches \<noteq> [] then estadisticas (valores_aire matches) totales
                     else Inr totales))"

subsection \<open>\<^verbatim>\<open>extraer_codigos_barras\<close>\<close>

definition patron_codigo_aire :: regex where
  \<comment> \<open>\<^verbatim>\<open>\((\d{3,4})\)(\d+)\<close>\<close>
  "patron_codigo_aire = seqs [lit ''('', Grp 1 (between 3 4 d), lit '')'', Grp 2 (plus d)]"

definition patron_codigo_completo :: regex where
  \<comment> \<open>\<^verbatim>\<open>\(415\)(\d+)\(8020\)(\d+)\(3900\)(\d+)\(96\)(\d+)\<close>, in both families\<close>
  "patron_codigo_completo =
     seqs [lit ''(415)'', Grp 1 (plus d), lit ''(8020)'', Grp 2 (plus d),
           lit ''(3900)'', Grp 3 (plus d), lit ''(96)'', Grp 4 (plus d)]"

definition patron_barcode :: regex where
  \<comment> \<open>\<^verbatim>\<open>[|]{10,}\<close>\<close>
  "patron_barcode = at_least 10 (Cls False [CC (CHR ''|'')])"

definition extraer_codigos_barras_aire :: "string \<Rightarrow> pyval dict" where
  "extraer_codigos_barras_aire texto =
     (let codigos = foldl (\<lambda>codigos pv. dset (''codigo_'' @ fst pv) (PStr (snd pv)) codigos) []
                      (re_findall2 patron_codigo_aire texto []);
          m = re_search patron_codigo_completo texto [];
          codigos = set_str ''codigo_96_completo'' m 4
                      (set_str ''codigo_3900_completo'' m 3
                        (set_str ''codigo_8020_completo'' m 2
                          (set_str ''codigo_415_completo'' m 1 codigos)));
          codigos = (if re_findall0 patron_barcode texto [] \<noteq> []
                     then dset ''tiene_codigo_barras'' (PStr ''Si'') codigos else codigos)
      in codigos)"

subsection \<open>\<^verbatim>\<open>extraer_todos_los_datos\<close>\<close>

definition extraer_todos_los_datos_aire :: "string \<Rightarrow> error + seccion dict" where
  \<comment> \<open>the sections are computed in the order of the dictionary literal; the first
      exception ends the call\<close>
  "extraer_todos_los_datos_aire texto =
     ebind (extraer_informacion_general_aire texto)
       (\<lambda>informacion_general.
          let datos_cliente = extraer_datos_cliente_aire texto;
              datos_operador = extraer_datos_operador texto;
              periodo_facturacion = extraer_periodo_facturacion_aire texto
          in ebind (extraer_conceptos_facturados_aire texto)
               (\<lambda>conceptos_facturados. ebind (extraer_informacion_pago_aire texto)
                  (\<lambda>informacion_pago.
                     let datos_tecnicos = extraer_datos_tecnicos_aire texto
                     in ebind (extraer_totales_aire texto)
                          (\<lambda>totales.
                             let codigos_barras = extraer_codigos_barras_aire texto
                             in Inr [(''informacion_general'', Fields informacion_general),
                                     (''datos_cliente'', Fields datos_cliente),
                                     (''datos_operador'', Fields datos_operador),
                                     (''periodo_facturacion'', Fields periodo_facturacion),
                                     (''conceptos_facturados'', Items conceptos_facturados),
                                     (''informacion_pago'', Fields informacion_pago),
                                     (''datos_tecnicos'', Fields datos_tecnicos),
                                     (''totales'', Fields totales),
                                     (''codigos_barras'', Fields codigos_barras)]))))"

section \<open>The ESSA extractor (\<^verbatim>\<open>src/ESSA/data_extractor.py\<close>)\<close>

subsection \<open>\<^verbatim>\<open>extraer_informacion_general\<close>\<close>

definition patron_factura :: regex where
  \<comment> \<open>\<^verbatim>\<open>FACTURA\s+ELECTR\'ONICA\s+DE\s+VENTA\s+(\w+)\<close>\<close>
  "patron_factura =
     seqs [words [''FACTURA'', ''ELECTR'' @ [CHR 0xD3] @ ''NICA'', ''DE'', ''VENTA''], sp,
           Grp 1 (plus w)]"

definition patron_cufe :: regex where
  \<comment> \<open>\<^verbatim>\<open>CUFE:\s*([a-f0-9]+)\<close>\<close>
  "patron_cufe =
     seqs [lit ''CUFE:'', sp0,
           Grp 1 (plus (Cls False [CR (CHR ''a'') (CHR ''f''), CR (CHR ''0'') (CHR ''9'')]))]"

definition patron_resolucion :: regex where
  \<comment> \<open>\<^verbatim>\<open>Resoluci\'on\s+DIAN:?\s*Autorizaci\'on\s+n\'umero\s+([\d]+)\s+DEL\s+([\d-]+)\<close>\<close>
  "patron_resolucion =
     seqs [words [''Resoluci'' @ [CHR 0xF3] @ ''n'', ''DIAN''], opt (Lit (CHR '':'')), sp0,
           words [''Autorizaci'' @ [CHR 0xF3] @ ''n'', ''n'' @ [CHR 0xFA] @ ''mero''], sp,
           Grp 1 (plus d), sp, lit ''DEL'', sp, Grp 2 digits_dashes]"

definition patron_rango :: regex where
  "patron_rango =
     seqs [lit ''RANGO'', sp, Grp 1 (plus d), sp, words [''HASTA'', ''LA''], sp, Grp 2 (plus d)]"

definition patron_total_essa :: regex where
  \<comment> \<open>\<^verbatim>\<open>TOTAL\s+A\s+PAGAR\s+[\$]?\s*([\d,]+)\<close>\<close>
  "patron_total_essa =
     seqs [words [''TOTAL'', ''A'', ''PAGAR''], sp, dollar, sp0, Grp 1 digits_commas]"

definition extraer_informacion_general_essa :: "string \<Rightarrow> error + pyval dict" where
  "extraer_informacion_general_essa texto =
     (let info = [];
          info = set_str ''numero_factura'' (re_search patron_factura texto []) 1 info;
          info = set_str ''cufe'' (re_search patron_cufe texto [IGNORECASE]) 1 info;
          m = re_search patron_resolucion texto [IGNORECASE];
          info = set_str ''fecha_resolucion'' m 2 (set_str ''resolucion_dian'' m 1 info);
          m = re_search patron_rango texto [];
          info = set_str ''rango_hasta'' m 2 (set_str ''rango_desde'' m 1 info);
          matches = re_findall1 patron_total_essa texto [IGNORECASE]
      in if matches \<noteq> []
         then ebind (py_float (no_commas (last matches)))
                (\<lambda>v. Inr (dset ''total_pagar'' (PFloat v) info))
         else Inr info)"

subsection \<open>\<^verbatim>\<open>extraer_datos_comercializador\<close>\<close>

definition Telefono :: string where
  "Telefono = ''Tel'' @ [CHR 0xE9] @ ''fono''"

definition patron_nombre :: regex where
  \<comment> \<open>\<^verbatim>\<open>Nombre:\s*([^\n]+(?:S\.A\.|E\.S\.P\.))\<close>\<close>
  "patron_nombre =
     seqs [lit ''Nombre:'', sp0,
           Grp 1 (Seq (plus not_nl) (Alt (lit ''S.A.'') (lit ''E.S.P.'')))]"

definition patron_nit_essa :: regex where
  "patron_nit_essa = seqs [lit ''NIT:'', sp0, Grp 1 digits_dashes]"

definition patron_direccion_essa :: regex where
  \<comment> \<open>\<^verbatim>\<open>Direcci\'on:\s*([^\n]+?)(?:Municipio|Tel\'efono|\n)\<close>\<close>
  "patron_direccion_essa =
     seqs [lit (Direccion @ '':''), sp0, Grp 1 (plus_lazy not_nl),
           Alt (lit ''Municipio'') (Alt (lit Telefono) (Lit newline))]"

definition patron_municipio_essa :: regex where
  \<comment> \<open>\<^verbatim>\<open>Municipio:\s*([^\s]+)\<close>\<close>
  "patron_municipio_essa = seqs [lit ''Municipio:'', sp0, Grp 1 (plus (Cls True [Cs]))]"

definition patron_telefono :: regex where
  "patron_telefono = seqs [lit Telefono, sp0, Grp 1 (plus d)]"

definition extraer_datos_comercializador :: "string \<Rightarrow> pyval dict" where
  "extraer_datos_comercializador texto =
     (let datos = [];
          datos = set_stripped ''nombre'' (re_search patron_nombre texto []) 1 datos;
          datos = set_str ''nit'' (re_search patron_nit_essa texto []) 1 datos;
          datos = set_stripped ''direccion'' (re_search patron_direccion_essa texto []) 1 datos;
          datos = set_str ''municipio'' (re_search patron_municipio_essa texto []) 1 datos;
          datos = set_str ''telefono'' (re_search patron_telefono texto []) 1 datos
      in datos)"

subsection \<open>\<^verbatim>\<open>extraer_datos_cliente\<close>\<close>

definition patron_niu :: regex where
  \<comment> \<open>\<^verbatim>\<open>C\'odigo\s+Cuenta-NIU\s*([\d]+)\<close>\<close>
  "patron_niu =
     seqs [words [''C'' @ [CHR 0xF3] @ ''digo'', ''Cuenta-NIU''], sp0, Grp 1 (plus d)]"

definition patron_niu_alt :: regex where
  "patron_niu_alt = seqs [lit ''CUENTA-NIU'', sp0, Grp 1 (plus d)]"

definition extraer_datos_cliente_essa :: "string \<Rightarrow> pyval dict" where
  "extraer_datos_cliente_essa texto =
     (let datos = [];
          datos = set_str ''codigo_cuenta_niu'' (re_search patron_niu texto [IGNORECASE]) 1 datos;
          datos = (if \<not> has_key ''codigo_cuenta_niu'' datos
                   then set_str ''codigo_cuenta_niu'' (re_search patron_niu_alt texto []) 1 datos
                   else datos)
      in datos)"

subsection \<open>\<^verbatim>\<open>extraer_periodo_facturacion\<close>\<close>

definition patron_periodo_essa :: regex where
  "patron_periodo_essa =
     seqs [words [''Periodo'', ''Facturado'', ''Desde:''], sp0, Grp 1 digits_dashes, sp,
           lit ''Hasta:'', sp0, Grp 2 digits_dashes]"

definition patron_generacion :: regex where
  \<comment> \<open>\<^verbatim>\<open>Fecha\s+y\s+Hora\s+Generaci\'on:\s*([\d-]+\s+[\d:]+(?:-[\d:]+)?)\<close>\<close>
  "patron_generacion =
     seqs [words [''Fecha'', ''y'', ''Hora'', ''Generaci'' @ [CHR 0xF3] @ ''n:''], sp0,
           Grp 1 (seqs [digits_dashes, sp, digits_colons,
                        opt (Seq (Lit (CHR ''-'')) digits_colons)])]"

definition patron_vencimiento_essa :: regex where
  "patron_vencimiento_essa =
     seqs [words [''Fecha'', ''de'', ''Vencimiento:''], sp0, Grp 1 digits_dashes]"

definition patron_forma_pago :: regex where
  "patron_forma_pago = seqs [words [''Forma'', ''de'', ''Pago:''], sp0, Grp 1 (plus w)]"

definition extraer_periodo_facturacion_essa :: "string \<Rightarrow> pyval dict" where
  "extraer_periodo_facturacion_essa texto =
     (let periodo = [];
          m = re_search patron_periodo_essa texto [IGNORECASE];
          periodo = set_str ''fecha_hasta'' m 2 (set_str ''fecha_desde'' m 1 periodo);
          periodo = set_str ''fecha_hora_generacion''
                      (re_search patron_generacion texto [IGNORECASE]) 1 periodo;
          periodo = set_str ''fecha_vencimiento''
                      (re_search patron_vencimiento_essa texto [IGNORECASE]) 1 periodo;
          periodo = set_str ''forma_pago''
                      (re_search patron_forma_pago texto [IGNORECASE]) 1 periodo
      in periodo)"

subsection \<open>\<^verbatim>\<open>extraer_conceptos_facturados\<close>\<close>

definition unidad :: regex where
  \<comment> \<open>\<^verbatim>\<open>Peso|KWH|K\d+\<close>\<close>
  "unidad = Alt (lit ''Peso'') (Alt (lit ''KWH'') (Seq (Lit (CHR ''K'')) (plus d)))"

definition cinco_valores :: "nat \<Rightarrow> regex" where
  \<comment> \<open>\<^verbatim>\<open>([\d,\.]+)\s+([\d,\.]+)\s+(\d+)\s+(\d+)\s+([\d,]+)\<close>, the five amounts that end
      every line pattern; \<open>n\<close> is the number of the first of the five groups\<close>
  "cinco_valores n =
     seqs [Grp n money, sp, Grp (n + 1) money, sp, Grp (n + 2) (plus d), sp,
           Grp (n + 3) (plus d), sp, Grp (n + 4) digits_commas]"

definition patron_tabla :: regex where
  \<comment> \<open>the header line, the table, and the phrase that ends it:
      \<^verbatim>\<open>Nro\.\s+C\'ODIGO\s+CONCEPTO\s+UNIDAD\s+VR\\UNIDAD\s+CANTIDAD\s+IVA\s+SALDO\s+VALOR\s+MES\<close>
      \<^verbatim>\<open>(.*?)(?:Valor\s+Reclamacion|TOTAL\s+A\s+PAGAR)\<close>\<close>
  "patron_tabla =
     seqs [words [''Nro.'', ''C'' @ [CHR 0xD3] @ ''DIGO'', ''CONCEPTO'', ''UNIDAD'',
                  ''VR'' @ [CHR 0x5C] @ ''UNIDAD'', ''CANTIDAD'', ''IVA'', ''SALDO'', ''VALOR'',
                  ''MES''],
           Grp 1 (Star False Dot),
           Alt (words [''Valor'', ''Reclamacion'']) (words [''TOTAL'', ''A'', ''PAGAR''])]"

definition patron_linea :: regex where
  \<comment> \<open>\<^verbatim>\<open>^(\d+)\s+(\d+)\s+([A-Z\s]+?)\s+(Peso|KWH|K\d+)\s+\<close> and the five amounts, then \<^verbatim>\<open>$\<close>\<close>
  "patron_linea =
     seqs [Bol, Grp 1 (plus d), sp, Grp 2 (plus d), sp,
           Grp 3 (plus_lazy (Cls False [CR (CHR ''A'') (CHR ''Z''), Cs])), sp,
           Grp 4 unidad, sp, cinco_valores 5, Eol]"

definition patron_concepto_alt :: regex where
  \<comment> \<open>\<^verbatim>\<open>(\d+)\s+(\d{3})\s+([A-Z][A-Z\s]+?)\s+(Peso|KWH|K\d+)\s+\<close> and the five amounts\<close>
  "patron_concepto_alt =
     seqs [Grp 1 (plus d), sp, Grp 2 (times 3 d), sp,
           Grp 3 (Seq (Cls False [CR (CHR ''A'') (CHR ''Z'')])
                      (plus_lazy (Cls False [CR (CHR ''A'') (CHR ''Z''), Cs]))), sp,
           Grp 4 unidad, sp, cinco_valores 5]"

definition patron_especifico :: "string \<Rightarrow> string \<Rightarrow> string \<Rightarrow> regex" where
  \<comment> \<open>\<^verbatim>\<open>rf'{codigo}\s+{nombre}.*?{unidad}\s+\<close> and the five amounts; the known codes,
      names and units are letters, digits and blanks, which stand for themselves\<close>
  "patron_especifico codigo nombre unid =
     seqs [lit codigo, sp, lit nombre, Star False Dot, lit unid, sp, cinco_valores 1]"

definition mk_concepto :: "int \<Rightarrow> string \<Rightarrow> string \<Rightarrow> string \<Rightarrow> string \<Rightarrow> string \<Rightarrow> string
    \<Rightarrow> string \<Rightarrow> string \<Rightarrow> error + pyval dict" where
  \<comment> \<open>the dictionary literal of one line; its amounts are read in the order written,
      \<^verbatim>\<open>valor_unidad\<close>, \<^verbatim>\<open>cantidad\<close> and \<^verbatim>\<open>valor_mes\<close> after dropping the commas\<close>
  "mk_concepto numero codigo nombre unid valor_unit cantidad iva saldo valor_mes =
     ebind (py_float (no_commas valor_unit))
       (\<lambda>vu. ebind (py_float (no_commas cantidad))
          (\<lambda>ca. ebind (py_float iva)
             (\<lambda>iv. ebind (py_float saldo)
                (\<lambda>sa. ebind (py_float (no_commas valor_mes))
                   (\<lambda>vm. Inr [(''numero'', PInt numero), (''codigo'', PStr codigo),
                               (''concepto'', PStr nombre), (''unidad'', PStr unid),
                               (''valor_unidad'', PFloat vu), (''cantidad'', PFloat ca),
                               (''iva'', PFloat iv), (''saldo'', PFloat sa),
                               (''valor_mes'', PFloat vm)])))))"

definition concepto_de_match :: "rematch \<Rightarrow> error + pyval dict" where
  \<comment> \<open>the line built from the nine groups of \<open>patron_linea\<close> or \<open>patron_concepto_alt\<close>\<close>
  "concepto_de_match m =
     ebind (py_int (mgroup m 1))
       (\<lambda>numero. mk_concepto numero (mgroup m 2) (strip (mgroup m 3)) (mgroup m 4) (mgroup m 5)
                    (mgroup m 6) (mgroup m 7) (mgroup m 8) (mgroup m 9))"

definition lineas_no_vacias :: "string \<Rightarrow> string list" where
  \<comment> \<open>the lines of the table region, each stripped, the empty ones left out\<close>
  "lineas_no_vacias texto_tabla =
     filter (\<lambda>linea. linea \<noteq> []) (map strip (split_lines (strip texto_tabla)))"

definition tier_a_essa :: "string \<Rightarrow> error + pyval dict list" where
  \<comment> \<open>first method: the region between the header and the closing phrase, line by line\<close>
  "tier_a_essa texto =
     (case re_search patron_tabla texto [DOTALL, IGNORECASE] of
        None \<Rightarrow> Inr []
      | Some match_tabla \<Rightarrow>
          emap concepto_de_match
            (concat (map (\<lambda>linea. case re_match patron_linea linea [] of
                                     None \<Rightarrow> [] | Some match_linea \<Rightarrow> [match_linea])
                         (lineas_no_vacias (mgroup match_tabla 1)))))"

definition tier_b_essa :: "string \<Rightarrow> error + pyval dict list" where
  \<comment> \<open>second method: the looser line pattern over the whole text\<close>
  "tier_b_essa texto = emap concepto_de_match (re_finditer patron_concepto_alt texto [])"

definition conceptos_conocidos :: "(string \<times> string \<times> string \<times> string \<times> string \<times> string
    \<times> string \<times> string) list" where
  "conceptos_conocidos =
     [(''672'', ''CPROG'', ''Peso'', ''79,059,512.0000'', ''1'', ''0'', ''0'', ''79,059,512''),
      (''384'', ''PEAJE ACTIVA'', ''KWH'', ''11.5377'', ''3,638,002'', ''0'', ''0'', ''41,974,020''),
      (''636'', ''PEAJE INDUCTIVA FA'', ''K5'', ''7,342,282.0000'', ''1'', ''0'', ''0'',
       ''7,342,282''),
      (''499'', ''ADD CENTRO'', ''Peso'', ''391,250.0000'', ''1'', ''0'', ''0'', ''391,250'')]"

fun tier_c_item :: "string \<Rightarrow> int \<times> string \<times> string \<times> string \<times> string \<times> string \<times> string
    \<times> string \<times> string \<Rightarrow> error + pyval dict" where
  \<comment> \<open>the body of the loop over the known concepts: the amounts found after the code
      and name, or else the amounts written in the list\<close>
  "tier_c_item texto (i, codigo, nombre, unid, valor_unit, cantidad, iva, saldo, valor_mes) =
     (case re_search (patron_especifico codigo nombre unid) texto [] of
        Some m \<Rightarrow> mk_concepto i codigo nombre unid (mgroup m 1) (mgroup m 2) (mgroup m 3)
                    (mgroup m 4) (mgroup m 5)
      | None \<Rightarrow> mk_concepto i codigo nombre unid valor_unit cantidad iva saldo valor_mes)"

definition tier_c_essa :: "string \<Rightarrow> error + pyval dict list" where
  \<comment> \<open>last resort: one line for each known concept, numbered from 1\<close>
  "tier_c_essa texto =
     emap (tier_c_item texto) (zip [1 .. int (length conceptos_conocidos)] conceptos_conocidos)"

definition extraer_conceptos_facturados_essa :: "string \<Rightarrow> error + pyval dict list" where
  "extraer_conceptos_facturados_essa texto =
     ebind (tier_a_essa texto)
       (\<lambda>conceptos. ebind (if conceptos = [] then tier_b_essa texto else Inr conceptos)
          (\<lambda>conceptos. if conceptos = [] then tier_c_essa texto else Inr conceptos))"

subsection \<open>\<^verbatim>\<open>extraer_informacion_pago\<close>\<close>

definition patron_reclamacion :: regex where
  "patron_reclamacion = seqs [words [''Valor'', ''Reclamacion:''], sp0, Grp 1 digits_commas]"

definition patron_congelado :: regex where
  "patron_congelado = seqs [words [''Valor'', ''Congelado:''], sp0, Grp 1 digits_commas]"

definition patron_lineas :: regex where
  "patron_lineas = seqs [words [''Total'', ''Lineas:''], sp0, Grp 1 (plus d)]"

definition extraer_informacion_pago_essa :: "string \<Rightarrow> error + pyval dict" where
  "extraer_informacion_pago_essa texto =
     ebind (set_float ''valor_reclamacion'' (re_search patron_reclamacion texto [IGNORECASE])
              no_commas [])
       (\<lambda>pago. ebind (set_float ''valor_congelado''
                        (re_search patron_congelado texto [IGNORECASE]) no_commas pago)
          (\<lambda>pago. case re_search patron_lineas texto [IGNORECASE] of
                     None \<Rightarrow> Inr pago
                   | Some m \<Rightarrow> ebind (py_int (mgroup m 1))
                                (\<lambda>n. Inr (dset ''total_lineas'' (PInt n) pago))))"

subsection \<open>\<^verbatim>\<open>extraer_datos_tecnicos\<close>\<close>

definition patron_sistema_essa :: regex where
  \<comment> \<open>\<^verbatim>\<open>Sistema:\s*([^\s]+)\<close>\<close>
  "patron_sistema_essa = seqs [lit ''Sistema:'', sp0, Grp 1 (plus (Cls True [Cs]))]"

definition patron_actsis :: regex where
  "patron_actsis = seqs [words [''ACTSIS'', ''LTDA,'', ''NIT:''], sp0, Grp 1 digits_dashes]"

definition patron_email :: regex where
  \<comment> \<open>\<^verbatim>\<open>(\w+@\w+\.\w+)\<close>\<close>
  "patron_email = Grp 1 (seqs [plus w, lit ''@'', plus w, lit ''.'', plus w])"

definition extraer_datos_tecnicos_essa :: "string \<Rightarrow> pyval dict" where
  "extraer_datos_tecnicos_essa texto =
     (let tecnicos = [];
          tecnicos = set_str ''sistema'' (re_search patron_sistema_essa texto []) 1 tecnicos;
          tecnicos = set_str ''actsis_nit'' (re_search patron_actsis texto []) 1 tecnicos;
          matches = re_findall1 patron_email texto [];
          tecnicos = (if matches \<noteq> [] then dset ''emails'' (PStrs (remdups_first matches)) tecnicos
                      else tecnicos)
      in tecnicos)"

subsection \<open>\<^verbatim>\<open>extraer_informacion_recaudo\<close>\<close>

definition patron_cuenta :: regex where
  \<comment> \<open>\<^verbatim>\<open>cuenta\s+corriente\s+n\'umero\s*([\d-]+)\s+del\s+Banco\s+(\w+)\<close>\<close>
  "patron_cuenta =
     seqs [words [''cuenta'', ''corriente'', ''n'' @ [CHR 0xFA] @ ''mero''], sp0,
           Grp 1 digits_dashes, sp, words [''del'', ''Banco''], sp, Grp 2 (plus w)]"

definition patron_correos :: regex where
  \<comment> \<open>\<^verbatim>\<open>recaudos@essa\.com\.co|linderman\.rodriguez@essa\.com\.co\<close>\<close>
  "patron_correos = Alt (lit ''recaudos@essa.com.co'') (lit ''linderman.rodriguez@essa.com.co'')"

definition patron_tel_contacto :: regex where
  \<comment> \<open>\<^verbatim>\<open>tel\'efono:\s*([\d]+)\s+extensi\'on\s*([\d]+)\<close>\<close>
  "patron_tel_contacto =
     seqs [lit (''tel'' @ [CHR 0xE9] @ ''fono:''), sp0, Grp 1 (plus d), sp,
           lit (''extensi'' @ [CHR 0xF3] @ ''n''), sp0, Grp 2 (plus d)]"

definition extraer_informacion_recaudo :: "string \<Rightarrow> pyval dict" where
  "extraer_informacion_recaudo texto =
     (let recaudo = [];
          m = re_search patron_cuenta texto [IGNORECASE];
          recaudo = set_str ''banco'' m 2 (set_str ''numero_cuenta'' m 1 recaudo);
          matches = re_findall0 patron_correos texto [];
          recaudo = (if matches \<noteq> []
                     then dset ''correos_recaudo'' (PStrs (remdups_first matches)) recaudo
                     else recaudo);
          m = re_search patron_tel_contacto texto [IGNORECASE];
          recaudo = set_str ''extension'' m 2 (set_str ''telefono_contacto'' m 1 recaudo)
      in recaudo)"

subsection \<open>\<^verbatim>\<open>extraer_totales\<close>\<close>

definition patron_valores_essa :: regex where
  \<comment> \<open>\<^verbatim>\<open>[\$]?\s*([\d]{7,}[\d,]*)\<close>\<close>
  "patron_valores_essa =
     seqs [dollar, sp0,
           Grp 1 (Seq (at_least 7 d) (Star True (Cls False [Cd, CC (CHR '','')])))]"

definition extraer_totales_essa :: "string \<Rightarrow> error + pyval dict" where
  "extraer_totales_essa texto =
     (let totales = [];
          matches = re_findall1 patron_valores_essa texto []
      in if matches \<noteq> []
         then ebind (emap (\<lambda>m. py_float (no_commas m)) matches)
                (\<lambda>valores. estadisticas valores totales)
         else Inr totales)"

subsection \<open>\<^verbatim>\<open>extraer_codigos_barras\<close>\<close>

definition patron_codigo_essa :: regex where
  \<comment> \<open>\<^verbatim>\<open>\((\d{3,})\)([^\(]+?)(?=\(|$)\<close>\<close>
  "patron_codigo_essa =
     seqs [lit ''('', Grp 1 (at_least 3 d), lit '')'',
           Grp 2 (plus_lazy (Cls True [CC (CHR ''('')])),
           Ahead (Alt (Lit (CHR ''('')) Eol)]"

definition extraer_codigos_barras_essa :: "string \<Rightarrow> pyval dict" where
  "extraer_codigos_barras_essa texto =
     (let codigos = foldl (\<lambda>codigos pv. dset (''codigo_'' @ fst pv) (PStr (strip (snd pv))) codigos)
                      [] (re_findall2 patron_codigo_essa texto []);
          m = re_search patron_codigo_completo texto [];
          codigos = set_str ''codigo_96'' m 4
                      (set_str ''codigo_3900'' m 3
                        (set_str ''codigo_8020'' m 2 (set_str ''codigo_415'' m 1 codigos)))
      in codigos)"

subsection \<open>\<^verbatim>\<open>extraer_todos_los_datos\<close>\<close>

definition extraer_todos_los_datos_essa :: "string \<Rightarrow> error + seccion dict" where
  "extraer_todos_los_datos_essa texto =
     ebind (extraer_informacion_general_essa texto)
       (\<lambda>informacion_general.
          let datos_comercializador = extraer_datos_comercializador texto;
              datos_cliente = extraer_datos_cliente_essa texto;
              periodo_facturacion = extraer_periodo_facturacion_essa texto
          in ebind (extraer_conceptos_facturados_essa texto)
               (\<lambda>conceptos_facturados. ebind (extraer_informacion_pago_essa texto)
                  (\<lambda>informacion_pago.
                     let datos_tecnicos = extraer_datos_tecnicos_essa texto;
                         informacion_recaudo = extraer_informacion_recaudo texto
                     in ebind (extraer_totales_essa texto)
                          (\<lambda>totales.
                             let codigos_barras = extraer_codigos_barras_essa texto
                             in Inr [(''informacion_general'', Fields informacion_general),
                                     (''datos_comercializador'', Fields datos_comercializador),
                                     (''datos_cliente'', Fields datos_cliente),
                                     (''periodo_facturacion'', Fields periodo_facturacion),
                                     (''conceptos_facturados'', Items conceptos_facturados),
                                     (''informacion_pago'', Fields informacion_pago),
                                     (''datos_tecnicos'', Fields datos_tecnicos),
                                     (''informacion_recaudo'', Fields informacion_recaudo),
                                     (''totales'', Fields totales),
                                     (''codigos_barras'', Fields codigos_barras)]))))"

section \<open>The entry points (\<^verbatim>\<open>main\<close> of \<^verbatim>\<open>src/air-e/main.py\<close> and \<^verbatim>\<open>src/ESSA/main.py\<close>)\<close>

text \<open>
  \<^verbatim>\<open>main\<close> reads the text of the PDF, stops with the message
  \<^verbatim>\<open>Error: No se pudo extraer texto del PDF\<close> and \<^verbatim>\<open>sys.exit(1)\<close> when the text is
  \<^verbatim>\<open>None\<close> or empty, and otherwise runs the extractor; an exception of the extractor
  is reported as \<^verbatim>\<open>Error inesperado\<close> before \<^verbatim>\<open>sys.exit(1)\<close>. The model goes from
  the text to the extracted data; writing the spreadsheet comes after and is left
  out.
\<close>

datatype outcome = Sin_texto | Error_inesperado error | Datos_extraidos "seccion dict"

definition main_aire :: "string option \<Rightarrow> outcome" where
  "main_aire texto_completo =
     (case texto_completo of None \<Rightarrow> Sin_texto
      | Some texto \<Rightarrow>
          if texto = [] then Sin_texto
          else (case extraer_todos_los_datos_aire texto of
                  Inl e \<Rightarrow> Error_inesperado e
                | Inr datos_extraidos \<Rightarrow> Datos_extraidos datos_extraidos))"

definition main_essa :: "string option \<Rightarrow> outcome" where
  "main_essa texto_completo =
     (case texto_completo of None \<Rightarrow> Sin_texto
      | Some texto \<Rightarrow>
          if texto = [] then Sin_texto
          else (case extraer_todos_los_datos_essa texto of
                  Inl e \<Rightarrow> Error_inesperado e
                | Inr datos_extraidos \<Rightarrow> Datos_extraidos datos_extraidos))"

section \<open>Predicates used to state the properties\<close>

fun seccion_vacia :: "seccion \<Rightarrow> bool" where
  "seccion_vacia (Fields kvs) = (kvs = [])"
| "seccion_vacia (Items xs) = (xs = [])"

definition resultado_vacio :: "error + seccion dict \<Rightarrow> bool" where
  \<comment> \<open>the call returned, and every section of the result is empty\<close>
  "resultado_vacio r = (case r of Inl e \<Rightarrow> False | Inr datos \<Rightarrow> list_all seccion_vacia (map snd datos))"

definition sin_secciones_vacias :: "error + seccion dict \<Rightarrow> bool" where
  \<comment> \<open>no key of a returned result is bound to an empty section\<close>
  "sin_secciones_vacias r =
     (case r of Inl e \<Rightarrow> True | Inr datos \<Rightarrow> list_all (\<lambda>s. \<not> seccion_vacia s) (map snd datos))"

fun entero_exacto :: "pyfloat \<Rightarrow> bool" where
  \<comment> \<open>a float whose value is a whole number, zero or more\<close>
  "entero_exacto (Fin q) = (0 \<le> q \<and> q = of_int \<lfloor>q\<rfloor>)"
| "entero_exacto x = False"

fun valor_de :: "pyfloat \<Rightarrow> rat" where
  "valor_de (Fin q) = q"
| "valor_de x = 0"

definition suma_exacta :: "pyfloat list \<Rightarrow> bool" where
  \<comment> \<open>whole numbers, fewer than \<open>2 ^ 53\<close> of them, whose true sum is below \<open>2 ^ 53\<close>: every
      partial sum is then a float, and the additions of \<open>py_sum\<close> do not round\<close>
  "suma_exacta xs = (list_all entero_exacto xs \<and> sum_list (map valor_de xs) < 2 ^ 53
                      \<and> int (length xs) < 2 ^ 53)"

section \<open>Basic facts\<close>

lemma dget_dset: "dget k (dset k' v kvs) = (if k = k' then Some v else dget k kvs)"
  by (induction kvs) (auto simp: dget_def)

lemma dget_Cons: "dget k ((k', v) # kvs) = (if k = k' then Some v else dget k kvs)"
  by (simp add: dget_def)

lemma dget_Nil: "dget k [] = None"
  by (simp add: dget_def)

lemma has_key_dset: "has_key k (dset k' v kvs) = (k = k' \<or> has_key k kvs)"
  by (simp add: has_key_def dget_dset)

lemma has_key_Nil: "has_key k [] = False"
  by (simp add: has_key_def dget_def)

lemma dget_set_str: "k \<noteq> k' \<Longrightarrow> dget k (set_str k' m n kvs) = dget k kvs"
  by (simp add: set_str_def dget_dset split: option.splits)

lemma dget_set_stripped: "k \<noteq> k' \<Longrightarrow> dget k (set_stripped k' m n kvs) = dget k kvs"
  by (simp add: set_stripped_def dget_dset split: option.splits)

lemma dget_set_const: "k \<noteq> k' \<Longrightarrow> dget k (set_const k' m v kvs) = dget k kvs"
  by (simp add: set_const_def dget_dset split: option.splits)

lemma ebind_Inr: "ebind (Inr x) f = f x"
  by (simp add: ebind_def)

lemma ebind_Inl: "ebind (Inl e) f = Inl e"
  by (simp add: ebind_def)

section \<open>The line items: the three methods in order\<close>

text \<open>
  Claim C3. Whenever the first method (the scan of the table region in ESSA, the
  concepts after the section header in Air-e) returns at least one line item, the
  extraction of the billed line items returns exactly that list: the scan of the
  whole text and the known-invoice fallback leave it as it is.
\<close>

theorem tier_a_decide:
  "(tier_a_essa texto = Inr conceptos \<and> conceptos \<noteq> [] \<longrightarrow>
      extraer_conceptos_facturados_essa texto = Inr conceptos)
   \<and> (tier_a_aire texto = Inr conceptos \<and> conceptos \<noteq> [] \<longrightarrow>
      extraer_conceptos_facturados_aire texto = Inr conceptos)"
  by (simp add: extraer_conceptos_facturados_essa_def extraer_conceptos_facturados_aire_def
        ebind_Inr)

text \<open>
  An ESSA text with the table header, one line and the closing phrase, and an Air-e
  text with the section header and one concept: in both the first method finds one
  line item, and it is the result.
\<close>

theorem tier_a_decide_witness:
  "tier_a_essa (''Nro. C'' @ [CHR 0xD3] @ ''DIGO CONCEPTO UNIDAD VR'' @ [CHR 0x5C]
       @ ''UNIDAD CANTIDAD IVA SALDO VALOR MES\<newline>2 67 CPROG Peso 5.5 1 0 0 6\<newline>TOTAL A PAGAR 6'')
     = Inr [[(''numero'', PInt 2), (''codigo'', PStr ''67''), (''concepto'', PStr ''CPROG''),
             (''unidad'', PStr ''Peso''), (''valor_unidad'', PFloat (Fin (11 / 2))),
             (''cantidad'', PFloat (Fin 1)), (''iva'', PFloat (Fin 0)),
             (''saldo'', PFloat (Fin 0)), (''valor_mes'', PFloat (Fin 6))]]
   \<and> extraer_conceptos_facturados_essa (''Nro. C'' @ [CHR 0xD3] @ ''DIGO CONCEPTO UNIDAD VR''
       @ [CHR 0x5C] @ ''UNIDAD CANTIDAD IVA SALDO VALOR MES\<newline>2 67 CPROG Peso 5.5 1 0 0 6\<newline>TOTAL A PAGAR 6'')
     = Inr [[(''numero'', PInt 2), (''codigo'', PStr ''67''), (''concepto'', PStr ''CPROG''),
             (''unidad'', PStr ''Peso''), (''valor_unidad'', PFloat (Fin (11 / 2))),
             (''cantidad'', PFloat (Fin 1)), (''iva'', PFloat (Fin 0)),
             (''saldo'', PFloat (Fin 0)), (''valor_mes'', PFloat (Fin 6))]]
   \<and> tier_a_aire ''Detalle del cobro Conceptos facturados Valores Peaje No Regulado $100''
     = Inr [item_aire ''Peaje No Regulado'' (Fin 1)]
   \<and> extraer_conceptos_facturados_aire
        ''Detalle del cobro Conceptos facturados Valores Peaje No Regulado $100''
     = Inr [item_aire ''Peaje No Regulado'' (Fin 1)]"
proof -
  let ?t = "''Nro. C'' @ [CHR 0xD3] @ ''DIGO CONCEPTO UNIDAD VR'' @ [CHR 0x5C]
       @ ''UNIDAD CANTIDAD IVA SALDO VALOR MES\<newline>2 67 CPROG Peso 5.5 1 0 0 6\<newline>TOTAL A PAGAR 6''"
  let ?c = "[[(''numero'', PInt 2), (''codigo'', PStr ''67''), (''concepto'', PStr ''CPROG''),
             (''unidad'', PStr ''Peso''), (''valor_unidad'', PFloat (Fin (11 / 2))),
             (''cantidad'', PFloat (Fin 1)), (''iva'', PFloat (Fin 0)),
             (''saldo'', PFloat (Fin 0)), (''valor_mes'', PFloat (Fin 6))]]"
  let ?u = "''Detalle del cobro Conceptos facturados Valores Peaje No Regulado $100''"
  have a: "tier_a_essa ?t = Inr ?c"
    by code_simp
  have b: "tier_a_aire ?u = Inr [item_aire ''Peaje No Regulado'' (Fin 1)]"
    by code_simp
  have "extraer_conceptos_facturados_essa ?t = Inr ?c"
    using tier_a_decide [of ?t ?c] a by simp
  moreover have "extraer_conceptos_facturados_aire ?u = Inr [item_aire ''Peaje No Regulado'' (Fin 1)]"
    using tier_a_decide [of ?u "[item_aire ''Peaje No Regulado'' (Fin 1)]"] b by simp
  ultimately show ?thesis
    using a b by simp
qed

section \<open>Fields with an alternate pattern\<close>

text \<open>
  Claim C8. When the primary pattern of a field matches (the customer name after
  \<^verbatim>\<open>Cliente:\<close> in Air-e, the account code after \<^verbatim>\<open>C\'odigo Cuenta-NIU\<close> in ESSA), the
  result holds the value of that match, whatever the alternate pattern would find:
  the alternate is consulted only while the field is not set.
\<close>

theorem primer_patron_gana:
  "(re_search patron_cliente texto [] = Some m \<longrightarrow>
      dget ''nombre'' (extraer_datos_cliente_aire texto) = Some (PStr (strip (mgroup m 1))))
   \<and> (re_search patron_niu texto [IGNORECASE] = Some m \<longrightarrow>
      dget ''codigo_cuenta_niu'' (extraer_datos_cliente_essa texto) = Some (PStr (mgroup m 1)))"
  by (simp add: extraer_datos_cliente_aire_def extraer_datos_cliente_essa_def Let_def
        dget_set_str dget_set_stripped dget_set_const set_str_def [of "''codigo_cuenta_niu''"]
        set_stripped_def [of "''nombre''"] has_key_dset dget_dset dget_Cons)

text \<open>
  Two texts in which both patterns of the field match, each on a different value:
  the value of the primary pattern is the one stored.
\<close>

theorem primer_patron_gana_witness:
  "re_search patron_cliente
      ''Cliente: ACME\<newline>GENERADORA Y COMERCIALIZADORA DE ENERGIA DEL CARIBE'' []
     = Some (''Cliente: ACME'', [(1, ''ACME'')])
   \<and> re_search patron_cliente_alt
      ''Cliente: ACME\<newline>GENERADORA Y COMERCIALIZADORA DE ENERGIA DEL CARIBE'' []
     = Some (''GENERADORA Y COMERCIALIZADORA DE ENERGIA DEL CARIBE'', [])
   \<and> dget ''nombre'' (extraer_datos_cliente_aire
        ''Cliente: ACME\<newline>GENERADORA Y COMERCIALIZADORA DE ENERGIA DEL CARIBE'')
     = Some (PStr ''ACME'')
   \<and> re_search patron_niu (''C'' @ [CHR 0xF3] @ ''digo Cuenta-NIU 111 CUENTA-NIU 222'') [IGNORECASE]
     = Some (''C'' @ [CHR 0xF3] @ ''digo Cuenta-NIU 111'', [(1, ''111'')])
   \<and> re_search patron_niu_alt (''C'' @ [CHR 0xF3] @ ''digo Cuenta-NIU 111 CUENTA-NIU 222'') []
     = Some (''CUENTA-NIU 222'', [(1, ''222'')])
   \<and> dget ''codigo_cuenta_niu''
        (extraer_datos_cliente_essa (''C'' @ [CHR 0xF3] @ ''digo Cuenta-NIU 111 CUENTA-NIU 222''))
     = Some (PStr ''111'')"
proof -
  let ?t = "''Cliente: ACME\<newline>GENERADORA Y COMERCIALIZADORA DE ENERGIA DEL CARIBE''"
  let ?u = "''C'' @ [CHR 0xF3] @ ''digo Cuenta-NIU 111 CUENTA-NIU 222''"
  have a: "re_search patron_cliente ?t [] = Some (''Cliente: ACME'', [(1, ''ACME'')])"
    by code_simp
  have a': "re_search patron_cliente_alt ?t []
              = Some (''GENERADORA Y COMERCIALIZADORA DE ENERGIA DEL CARIBE'', [])"
    by code_simp
  have b: "re_search patron_niu ?u [IGNORECASE]
             = Some (''C'' @ [CHR 0xF3] @ ''digo Cuenta-NIU 111'', [(1, ''111'')])"
    by code_simp
  have b': "re_search patron_niu_alt ?u [] = Some (''CUENTA-NIU 222'', [(1, ''222'')])"
    by code_simp
  have s: "strip ''ACME'' = ''ACME''"
    by code_simp
  have "dget ''nombre'' (extraer_datos_cliente_aire ?t) = Some (PStr ''ACME'')"
    using primer_patron_gana [of ?t "(''Cliente: ACME'', [(1, ''ACME'')])"] a s
    by (simp add: mgroup_def)
  moreover have "dget ''codigo_cuenta_niu'' (extraer_datos_cliente_essa ?u) = Some (PStr ''111'')"
    using primer_patron_gana [of ?u "(''C'' @ [CHR 0xF3] @ ''digo Cuenta-NIU 111'', [(1, ''111'')])"] b
    by (simp add: mgroup_def)
  ultimately show ?thesis
    using a a' b b' by simp
qed

section \<open>The total to pay\<close>

text \<open>
  Claim C9. When the \<^verbatim>\<open>TOTAL A PAGAR\<close> pattern occurs in the text, once or more, and
  the amount of its last occurrence reads as a number, the extraction of the general
  information returns and its field \<^verbatim>\<open>total_pagar\<close> is that number: the last
  occurrence decides, not the first. (The amount is read after dropping its
  separators; the rules that follow in Air-e do not touch the field.)
\<close>

theorem total_pagar_ultimo:
  "(re_findall1 patron_total_aire texto [IGNORECASE] = matches \<and> matches \<noteq> []
      \<and> py_float (no_commas_dots (last matches)) = Inr v \<longrightarrow>
      (\<exists>info. extraer_informacion_general_aire texto = Inr info
         \<and> dget ''total_pagar'' info = Some (PFloat v)))
   \<and> (re_findall1 patron_total_essa texto [IGNORECASE] = matches \<and> matches \<noteq> []
      \<and> py_float (no_commas (last matches)) = Inr v \<longrightarrow>
      (\<exists>info. extraer_informacion_general_essa texto = Inr info
         \<and> dget ''total_pagar'' info = Some (PFloat v)))"
  by (simp add: extraer_informacion_general_aire_def extraer_informacion_general_essa_def
        Let_def ebind_Inr dget_set_str dget_dset dget_Cons)

text \<open>
  A text with two occurrences and two different amounts: the field is the second.
\<close>

theorem total_pagar_ultimo_witness:
  "re_findall1 patron_total_aire ''TOTAL A PAGAR $1.000 Total a pagar 2.500'' [IGNORECASE]
     = [''1.000'', ''2.500'']
   \<and> (\<exists>info. extraer_informacion_general_aire ''TOTAL A PAGAR $1.000 Total a pagar 2.500''
                 = Inr info
         \<and> dget ''total_pagar'' info = Some (PFloat (Fin 2500)))
   \<and> re_findall1 patron_total_essa ''TOTAL A PAGAR $ 1,000 Total a pagar 2,500'' [IGNORECASE]
     = [''1,000'', ''2,500'']
   \<and> (\<exists>info. extraer_informacion_general_essa ''TOTAL A PAGAR $ 1,000 Total a pagar 2,500''
                 = Inr info
         \<and> dget ''total_pagar'' info = Some (PFloat (Fin 2500)))"
proof -
  let ?t = "''TOTAL A PAGAR $1.000 Total a pagar 2.500''"
  let ?u = "''TOTAL A PAGAR $ 1,000 Total a pagar 2,500''"
  have a: "re_findall1 patron_total_aire ?t [IGNORECASE] = [''1.000'', ''2.500'']"
    by code_simp
  have a': "py_float (no_commas_dots (last [''1.000'', ''2.500''])) = Inr (Fin 2500)"
    by code_simp
  have b: "re_findall1 patron_total_essa ?u [IGNORECASE] = [''1,000'', ''2,500'']"
    by code_simp
  have b': "py_float (no_commas (last [''1,000'', ''2,500''])) = Inr (Fin 2500)"
    by code_simp
  have "\<exists>info. extraer_informacion_general_aire ?t = Inr info
          \<and> dget ''total_pagar'' info = Some (PFloat (Fin 2500))"
    using total_pagar_ultimo [of ?t "[''1.000'', ''2.500'']" "Fin 2500"] a a' by simp
  moreover have "\<exists>info. extraer_informacion_general_essa ?u = Inr info
          \<and> dget ''total_pagar'' info = Some (PFloat (Fin 2500))"
    using total_pagar_ultimo [of ?u "[''1,000'', ''2,500'']" "Fin 2500"] b b' by simp
  ultimately show ?thesis
    using a b by simp
qed

section \<open>Empty or absent text\<close>

text \<open>
  Claim C7. \<^verbatim>\<open>main\<close> stops with its own outcome, before any extraction, exactly when
  the text is absent or empty; that outcome is neither the result of a completed
  extraction, however little it found, nor the report of an exception raised by the
  extractor.
\<close>

theorem sin_texto_distinto:
  "(main_aire texto = Sin_texto \<longleftrightarrow> texto = None \<or> texto = Some [])
   \<and> (main_essa texto = Sin_texto \<longleftrightarrow> texto = None \<or> texto = Some [])
   \<and> Sin_texto \<noteq> Datos_extraidos datos \<and> Sin_texto \<noteq> Error_inesperado e"
  by (auto simp: main_aire_def main_essa_def split: option.splits sum.splits)

text \<open>The empty text and the absent text, in the two families.\<close>

theorem sin_texto_distinto_witness:
  "main_aire (Some []) = Sin_texto \<and> main_aire None = Sin_texto
   \<and> main_essa (Some []) = Sin_texto \<and> main_essa None = Sin_texto"
  using sin_texto_distinto [of "Some []"] sin_texto_distinto [of None] by simp

section \<open>One line of the ESSA table\<close>

text \<open>
  Claim C5. The text made of the single line
  \<^verbatim>\<open>1 672 CPROG Peso 79059512.0000 1 0 0 79059512\<close> yields exactly one line item, with
  number 1, code 672, unit price 79059512.0, quantity 1.0, tax 0.0, balance 0.0 and
  period value 79059512.0 (its name is CPROG and its unit Peso). The whole-text
  pattern finds it; the per-line pattern of the table region reads the same line
  to the same item.
\<close>

theorem linea_sintetica:
  "extraer_conceptos_facturados_essa ''1 672 CPROG Peso 79059512.0000 1 0 0 79059512''
     = Inr [[(''numero'', PInt 1), (''codigo'', PStr ''672''), (''concepto'', PStr ''CPROG''),
             (''unidad'', PStr ''Peso''), (''valor_unidad'', PFloat (Fin 79059512)),
             (''cantidad'', PFloat (Fin 1)), (''iva'', PFloat (Fin 0)),
             (''saldo'', PFloat (Fin 0)), (''valor_mes'', PFloat (Fin 79059512))]]
   \<and> tier_a_essa ''1 672 CPROG Peso 79059512.0000 1 0 0 79059512'' = Inr []
   \<and> tier_b_essa ''1 672 CPROG Peso 79059512.0000 1 0 0 79059512''
     = Inr [[(''numero'', PInt 1), (''codigo'', PStr ''672''), (''concepto'', PStr ''CPROG''),
             (''unidad'', PStr ''Peso''), (''valor_unidad'', PFloat (Fin 79059512)),
             (''cantidad'', PFloat (Fin 1)), (''iva'', PFloat (Fin 0)),
             (''saldo'', PFloat (Fin 0)), (''valor_mes'', PFloat (Fin 79059512))]]
   \<and> map_option concepto_de_match
        (re_match patron_linea ''1 672 CPROG Peso 79059512.0000 1 0 0 79059512'' [])
     = Some (Inr [(''numero'', PInt 1), (''codigo'', PStr ''672''), (''concepto'', PStr ''CPROG''),
             (''unidad'', PStr ''Peso''), (''valor_unidad'', PFloat (Fin 79059512)),
             (''cantidad'', PFloat (Fin 1)), (''iva'', PFloat (Fin 0)),
             (''saldo'', PFloat (Fin 0)), (''valor_mes'', PFloat (Fin 79059512))])"
proof -
  let ?t = "''1 672 CPROG Peso 79059512.0000 1 0 0 79059512''"
  let ?c = "[(''numero'', PInt 1), (''codigo'', PStr ''672''), (''concepto'', PStr ''CPROG''),
             (''unidad'', PStr ''Peso''), (''valor_unidad'', PFloat (Fin 79059512)),
             (''cantidad'', PFloat (Fin 1)), (''iva'', PFloat (Fin 0)),
             (''saldo'', PFloat (Fin 0)), (''valor_mes'', PFloat (Fin 79059512))]"
  have a: "tier_a_essa ?t = Inr []"
    by code_simp
  have b: "tier_b_essa ?t = Inr [?c]"
    by code_simp
  have c: "map_option concepto_de_match (re_match patron_linea ?t []) = Some (Inr ?c)"
    by code_simp
  have "extraer_conceptos_facturados_essa ?t = Inr [?c]"
    by (simp add: extraer_conceptos_facturados_essa_def a b ebind_Inr)
  then show ?thesis
    using a b c by simp
qed

section \<open>Amounts without digits\<close>

text \<open>
  Claim C2 says that no text makes the extraction raise. In both families the
  amount after \<^verbatim>\<open>TOTAL A PAGAR\<close> is read by \<^verbatim>\<open>float\<close> outside any \<^verbatim>\<open>try\<close>, and the
  pattern accepts an amount made of separators only. On the text
  \<^verbatim>\<open>TOTAL A PAGAR ,\<close> the capture is a comma, nothing is left of it once the
  separators are dropped, \<^verbatim>\<open>float('')\<close> raises ValueError and the whole extraction
  ends with it: \<^verbatim>\<open>main\<close> reports an unexpected error and no result.
\<close>

theorem total_sin_digitos:
  "re_findall1 patron_total_aire ''TOTAL A PAGAR ,'' [IGNORECASE] = ['','']
   \<and> re_findall1 patron_total_essa ''TOTAL A PAGAR ,'' [IGNORECASE] = ['','']
   \<and> extraer_informacion_general_aire ''TOTAL A PAGAR ,'' = Inl ValueError
   \<and> extraer_informacion_general_essa ''TOTAL A PAGAR ,'' = Inl ValueError
   \<and> extraer_todos_los_datos_aire ''TOTAL A PAGAR ,'' = Inl ValueError
   \<and> extraer_todos_los_datos_essa ''TOTAL A PAGAR ,'' = Inl ValueError
   \<and> main_aire (Some ''TOTAL A PAGAR ,'') = Error_inesperado ValueError
   \<and> main_essa (Some ''TOTAL A PAGAR ,'') = Error_inesperado ValueError"
proof -
  let ?t = "''TOTAL A PAGAR ,''"
  have a: "re_findall1 patron_total_aire ?t [IGNORECASE] = ['','']"
    by code_simp
  have b: "re_findall1 patron_total_essa ?t [IGNORECASE] = ['','']"
    by code_simp
  have c: "extraer_informacion_general_aire ?t = Inl ValueError"
    by code_simp
  have d: "extraer_informacion_general_essa ?t = Inl ValueError"
    by code_simp
  have e: "extraer_todos_los_datos_aire ?t = Inl ValueError"
    by (simp add: extraer_todos_los_datos_aire_def c ebind_Inl)
  have f: "extraer_todos_los_datos_essa ?t = Inl ValueError"
    by (simp add: extraer_todos_los_datos_essa_def d ebind_Inl)
  show ?thesis
    using a b c d e f by (simp add: main_aire_def main_essa_def)
qed

section \<open>The empty text\<close>

lemma aire_cadena_vacia:
  "extraer_todos_los_datos_aire []
     = Inr [(''informacion_general'', Fields []), (''datos_cliente'', Fields []),
            (''datos_operador'', Fields []), (''periodo_facturacion'', Fields []),
            (''conceptos_facturados'', Items valores_especificos),
            (''informacion_pago'', Fields []), (''datos_tecnicos'', Fields []),
            (''totales'', Fields []), (''codigos_barras'', Fields [])]"
  by code_simp

lemma essa_cadena_vacia:
  "extraer_todos_los_datos_essa []
     = Inr [(''informacion_general'', Fields []), (''datos_comercializador'', Fields []),
            (''datos_cliente'', Fields []), (''periodo_facturacion'', Fields []),
            (''conceptos_facturados'',
             Items [[(''numero'', PInt 1), (''codigo'', PStr ''672''),
                     (''concepto'', PStr ''CPROG''), (''unidad'', PStr ''Peso''),
                     (''valor_unidad'', PFloat (Fin 79059512)), (''cantidad'', PFloat (Fin 1)),
                     (''iva'', PFloat (Fin 0)), (''saldo'', PFloat (Fin 0)),
                     (''valor_mes'', PFloat (Fin 79059512))],
                    [(''numero'', PInt 2), (''codigo'', PStr ''384''),
                     (''concepto'', PStr ''PEAJE ACTIVA''), (''unidad'', PStr ''KWH''),
                     (''valor_unidad'', PFloat (Fin (6495147677589071 / 562949953421312))),
                     (''cantidad'', PFloat (Fin 3638002)),
                     (''iva'', PFloat (Fin 0)), (''saldo'', PFloat (Fin 0)),
                     (''valor_mes'', PFloat (Fin 41974020))],
                    [(''numero'', PInt 3), (''codigo'', PStr ''636''),
                     (''concepto'', PStr ''PEAJE INDUCTIVA FA''), (''unidad'', PStr ''K5''),
                     (''valor_unidad'', PFloat (Fin 7342282)), (''cantidad'', PFloat (Fin 1)),
                     (''iva'', PFloat (Fin 0)), (''saldo'', PFloat (Fin 0)),
                     (''valor_mes'', PFloat (Fin 7342282))],
                    [(''numero'', PInt 4), (''codigo'', PStr ''499''),
                     (''concepto'', PStr ''ADD CENTRO''), (''unidad'', PStr ''Peso''),
                     (''valor_unidad'', PFloat (Fin 391250)), (''cantidad'', PFloat (Fin 1)),
                     (''iva'', PFloat (Fin 0)), (''saldo'', PFloat (Fin 0)),
                     (''valor_mes'', PFloat (Fin 391250))]]),
            (''informacion_pago'', Fields []), (''datos_tecnicos'', Fields []),
            (''informacion_recaudo'', Fields []), (''totales'', Fields []),
            (''codigos_barras'', Fields [])]"
  by code_simp

text \<open>
  Claim C1 says that on the empty text every section of the result is empty or
  absent. The call does return, in both families, but the section of the billed
  line items is not empty: no method finds a line, and the last resort supplies the
  four lines of the known invoice.
\<close>

theorem cadena_vacia_counterexample:
  "\<not> resultado_vacio (extraer_todos_los_datos_aire [])
   \<and> \<not> resultado_vacio (extraer_todos_los_datos_essa [])"
  by (simp add: aire_cadena_vacia essa_cadena_vacia resultado_vacio_def valores_especificos_def)

text \<open>
  Claim C1, amended. On the empty text the extraction of either family returns
  (nothing is raised); every section is present and empty, except the billed line
  items, which hold the four lines of the known invoice.
\<close>

theorem cadena_vacia:
  "extraer_todos_los_datos_aire []
     = Inr [(''informacion_general'', Fields []), (''datos_cliente'', Fields []),
            (''datos_operador'', Fields []), (''periodo_facturacion'', Fields []),
            (''conceptos_facturados'',
             Items [[(''concepto'', PStr ''Peaje No Regulado''),
                     (''valor'', PFloat (float_literal (2475438567 / 100)))],
                    [(''concepto'', PStr Penalizacion_Energia),
                     (''valor'', PFloat (float_literal (554956 / 100)))],
                    [(''concepto'', PStr ''AJUSTE MONETARIO''),
                     (''valor'', PFloat (float_literal (- 23 / 100)))],
                    [(''concepto'', PStr ''CPROG_PEAJES''),
                     (''valor'', PFloat (float_literal 316994835))]]),
            (''informacion_pago'', Fields []), (''datos_tecnicos'', Fields []),
            (''totales'', Fields []), (''codigos_barras'', Fields [])]
   \<and> extraer_todos_los_datos_essa []
     = Inr [(''informacion_general'', Fields []), (''datos_comercializador'', Fields []),
            (''datos_cliente'', Fields []), (''periodo_facturacion'', Fields []),
            (''conceptos_facturados'',
             Items [[(''numero'', PInt 1), (''codigo'', PStr ''672''),
                     (''concepto'', PStr ''CPROG''), (''unidad'', PStr ''Peso''),
                     (''valor_unidad'', PFloat (Fin 79059512)), (''cantidad'', PFloat (Fin 1)),
                     (''iva'', PFloat (Fin 0)), (''saldo'', PFloat (Fin 0)),
                     (''valor_mes'', PFloat (Fin 79059512))],
                    [(''numero'', PInt 2), (''codigo'', PStr ''384''),
                     (''concepto'', PStr ''PEAJE ACTIVA''), (''unidad'', PStr ''KWH''),
                     (''valor_unidad'', PFloat (Fin (6495147677589071 / 562949953421312))),
                     (''cantidad'', PFloat (Fin 3638002)),
                     (''iva'', PFloat (Fin 0)), (''saldo'', PFloat (Fin 0)),
                     (''valor_mes'', PFloat (Fin 41974020))],
                    [(''numero'', PInt 3), (''codigo'', PStr ''636''),
                     (''concepto'', PStr ''PEAJE INDUCTIVA FA''), (''unidad'', PStr ''K5''),
                     (''valor_unidad'', PFloat (Fin 7342282)), (''cantidad'', PFloat (Fin 1)),
                     (''iva'', PFloat (Fin 0)), (''saldo'', PFloat (Fin 0)),
                     (''valor_mes'', PFloat (Fin 7342282))],
                    [(''numero'', PInt 4), (''codigo'', PStr ''499''),
                     (''concepto'', PStr ''ADD CENTRO''), (''unidad'', PStr ''Peso''),
                     (''valor_unidad'', PFloat (Fin 391250)), (''cantidad'', PFloat (Fin 1)),
                     (''iva'', PFloat (Fin 0)), (''saldo'', PFloat (Fin 0)),
                     (''valor_mes'', PFloat (Fin 391250))]]),
            (''informacion_pago'', Fields []), (''datos_tecnicos'', Fields []),
            (''informacion_recaudo'', Fields []), (''totales'', Fields []),
            (''codigos_barras'', Fields [])]"
  by (simp add: aire_cadena_vacia essa_cadena_vacia valores_especificos_def item_aire_def)

section \<open>Sections and their keys\<close>

lemma has_key_Cons: "has_key k ((k', v) # kvs) = (k = k' \<or> has_key k kvs)"
  by (simp add: has_key_def dget_def)

text \<open>
  Claim C4 says that a section without fields is not a key of the result, and that
  the section of totals is left out when the text has no monetary token. The
  dictionary literal of \<^verbatim>\<open>extraer_todos_los_datos\<close> binds every key, whatever the
  section holds: on the empty text the totals, like every section but the line
  items, are an empty dictionary under their key.
\<close>

theorem secciones_presentes_counterexample:
  "\<not> sin_secciones_vacias (extraer_todos_los_datos_aire [])
   \<and> \<not> sin_secciones_vacias (extraer_todos_los_datos_essa [])
   \<and> map_sum id (dget ''totales'') (extraer_todos_los_datos_aire []) = Inr (Some (Fields []))
   \<and> map_sum id (dget ''totales'') (extraer_todos_los_datos_essa []) = Inr (Some (Fields []))"
  by (simp add: aire_cadena_vacia essa_cadena_vacia sin_secciones_vacias_def dget_Cons)

text \<open>
  Claim C4, amended. A returned result has every key of its family, in the order of
  the literal, so that a section without fields is an empty dictionary under its
  key. When the text has no monetary token no statistic is computed: the totals of
  ESSA are the empty dictionary, and the totals of Air-e have none of the four
  statistics keys.
\<close>

theorem secciones_presentes:
  "(extraer_todos_los_datos_aire texto = Inr datos \<longrightarrow>
      keys datos = [''informacion_general'', ''datos_cliente'', ''datos_operador'',
                    ''periodo_facturacion'', ''conceptos_facturados'', ''informacion_pago'',
                    ''datos_tecnicos'', ''totales'', ''codigos_barras''])
   \<and> (extraer_todos_los_datos_essa texto = Inr datos \<longrightarrow>
      keys datos = [''informacion_general'', ''datos_comercializador'', ''datos_cliente'',
                    ''periodo_facturacion'', ''conceptos_facturados'', ''informacion_pago'',
                    ''datos_tecnicos'', ''informacion_recaudo'', ''totales'', ''codigos_barras''])
   \<and> (re_findall1 patron_valores_essa texto [] = [] \<longrightarrow> extraer_totales_essa texto = Inr [])
   \<and> (re_findall1 patron_valores_aire texto [] = [] \<and> extraer_totales_aire texto = Inr totales \<longrightarrow>
      \<not> has_key ''valores_encontrados'' totales \<and> \<not> has_key ''valor_maximo'' totales
      \<and> \<not> has_key ''valor_minimo'' totales \<and> \<not> has_key ''promedio_valores'' totales)"
proof -
  have a: "extraer_todos_los_datos_aire texto = Inr datos \<longrightarrow>
      keys datos = [''informacion_general'', ''datos_cliente'', ''datos_operador'',
                    ''periodo_facturacion'', ''conceptos_facturados'', ''informacion_pago'',
                    ''datos_tecnicos'', ''totales'', ''codigos_barras'']"
    by (auto simp: extraer_todos_los_datos_aire_def ebind_def Let_def keys_def split: sum.splits)
  have b: "extraer_todos_los_datos_essa texto = Inr datos \<longrightarrow>
      keys datos = [''informacion_general'', ''datos_comercializador'', ''datos_cliente'',
                    ''periodo_facturacion'', ''conceptos_facturados'', ''informacion_pago'',
                    ''datos_tecnicos'', ''informacion_recaudo'', ''totales'', ''codigos_barras'']"
    by (auto simp: extraer_todos_los_datos_essa_def ebind_def Let_def keys_def split: sum.splits)
  have c: "re_findall1 patron_valores_essa texto [] = [] \<longrightarrow> extraer_totales_essa texto = Inr []"
    by (simp add: extraer_totales_essa_def)
  have d: "re_findall1 patron_valores_aire texto [] = [] \<and> extraer_totales_aire texto = Inr totales \<longrightarrow>
      \<not> has_key ''valores_encontrados'' totales \<and> \<not> has_key ''valor_maximo'' totales
      \<and> \<not> has_key ''valor_minimo'' totales \<and> \<not> has_key ''promedio_valores'' totales"
    by (auto simp: extraer_totales_aire_def set_float_def ebind_def Let_def has_key_dset has_key_Nil has_key_Cons
          split: option.splits sum.splits if_splits)
  from a b c d show ?thesis by blast
qed

text \<open>
  The empty text for the keys, and a text whose longest run of digits has six
  digits for the totals: ESSA's are empty, Air-e's hold the general total alone.
\<close>

theorem secciones_presentes_witness:
  "keys [(''informacion_general'', Fields []), (''datos_cliente'', Fields []),
         (''datos_operador'', Fields []), (''periodo_facturacion'', Fields []),
         (''conceptos_facturados'', Items valores_especificos),
         (''informacion_pago'', Fields []), (''datos_tecnicos'', Fields []),
         (''totales'', Fields []), (''codigos_barras'', Fields [])]
     = [''informacion_general'', ''datos_cliente'', ''datos_operador'',
        ''periodo_facturacion'', ''conceptos_facturados'', ''informacion_pago'',
        ''datos_tecnicos'', ''totales'', ''codigos_barras'']
   \<and> re_findall1 patron_valores_essa ''Total 341.754.770 y 123456'' [] = []
   \<and> extraer_totales_essa ''Total 341.754.770 y 123456'' = Inr []
   \<and> re_findall1 patron_valores_aire ''Total 341.754.770 y 123456'' [] = []
   \<and> extraer_totales_aire ''Total 341.754.770 y 123456''
     = Inr [(''total_general'', PFloat (Fin 341754770))]
   \<and> \<not> has_key ''valor_maximo'' [(''total_general'', PFloat (Fin 341754770))]"
proof -
  let ?t = "''Total 341.754.770 y 123456''"
  let ?d = "[(''informacion_general'', Fields []), (''datos_cliente'', Fields []),
         (''datos_operador'', Fields []), (''periodo_facturacion'', Fields []),
         (''conceptos_facturados'', Items valores_especificos),
         (''informacion_pago'', Fields []), (''datos_tecnicos'', Fields []),
         (''totales'', Fields []), (''codigos_barras'', Fields [])]"
  have a: "re_findall1 patron_valores_essa ?t [] = []"
    by code_simp
  have b: "re_findall1 patron_valores_aire ?t [] = []"
    by code_simp
  have c: "extraer_totales_aire ?t = Inr [(''total_general'', PFloat (Fin 341754770))]"
    by code_simp
  have "keys ?d = [''informacion_general'', ''datos_cliente'', ''datos_operador'',
        ''periodo_facturacion'', ''conceptos_facturados'', ''informacion_pago'',
        ''datos_tecnicos'', ''totales'', ''codigos_barras'']"
    using secciones_presentes [of "[]" ?d] aire_cadena_vacia by simp
  moreover have "extraer_totales_essa ?t = Inr []"
    using secciones_presentes [of ?t] a by simp
  moreover have "\<not> has_key ''valor_maximo'' [(''total_general'', PFloat (Fin 341754770))]"
    using secciones_presentes [of ?t _ "[(''total_general'', PFloat (Fin 341754770))]"] b c
    by simp
  ultimately show ?thesis
    using a b c by simp
qed

section \<open>Rounding to a float\<close>

lemma pow2_pos: "0 < pow2 k"
  by (simp add: pow2_def)

lemma pow2_diff:
  assumes "0 \<le> a" and "0 \<le> b"
  shows "pow2 (a - b) = 2 ^ nat a / 2 ^ nat b"
proof (cases "b \<le> a")
  case True
  then have "nat a = nat (a - b) + nat b"
    using assms by simp
  then have "(2::rat) ^ nat a = 2 ^ nat (a - b) * 2 ^ nat b"
    by (simp only: power_add)
  then show ?thesis
    using True by (simp add: pow2_def)
next
  case False
  then have "nat b = nat (b - a) + nat a"
    using assms by simp
  then have "(2::rat) ^ nat b = 2 ^ nat (b - a) * 2 ^ nat a"
    by (simp only: power_add)
  then show ?thesis
    using False by (simp add: pow2_def)
qed

lemma pow2_nonneg_exp: "0 \<le> k \<Longrightarrow> pow2 k = 2 ^ nat k"
  by (simp add: pow2_def)

lemma pow2_neg_exp: "k \<le> 0 \<Longrightarrow> pow2 k = 1 / 2 ^ nat (- k)"
  by (cases "k = 0") (simp_all add: pow2_def)

lemma pow2_bound_exp:
  assumes "pow2 k \<le> x" and "x < 2 ^ 53"
  shows "k \<le> 52"
proof (rule ccontr)
  assume "\<not> k \<le> 52"
  then have k: "53 \<le> k" by simp
  then have "(2::rat) ^ 53 \<le> 2 ^ nat k"
    by (intro power_increasing) auto
  with k have "(2::rat) ^ 53 \<le> pow2 k"
    by (simp add: pow2_def)
  with assms show False by simp
qed

lemma rat_exp_le:
  assumes "0 < x"
  shows "pow2 (rat_exp x) \<le> x"
proof -
  obtain p q where pq: "quotient_of x = (p, q)"
    by (cases "quotient_of x")
  then have q: "0 < q" and x: "x = of_int p / of_int q"
    using quotient_of_denom_pos quotient_of_div by blast+
  with assms have p: "0 < p"
    by (simp add: zero_less_divide_iff)
  define k where "k = bitlen p - bitlen q"
  show ?thesis
  proof (cases "pow2 k \<le> x")
    case True
    then show ?thesis
      by (simp add: rat_exp_def pq k_def Let_def)
  next
    case False
    then have r: "rat_exp x = k - 1"
      by (simp add: rat_exp_def pq k_def Let_def)
    have bp: "2 ^ nat (bitlen p - 1) \<le> p" and bq: "q < 2 ^ nat (bitlen q)"
      using bitlen_bounds [OF p] bitlen_bounds [OF q] by simp_all
    have bp1: "1 \<le> bitlen p" and bq1: "1 \<le> bitlen q"
      using p q by (simp_all add: bitlen_alt_def)
    have "k - 1 = (bitlen p - 1) - bitlen q"
      by (simp add: k_def)
    moreover have "pow2 ((bitlen p - 1) - bitlen q) = 2 ^ nat (bitlen p - 1) / 2 ^ nat (bitlen q)"
      using bp1 bq1 by (intro pow2_diff) simp_all
    ultimately have "pow2 (k - 1) = 2 ^ nat (bitlen p - 1) / 2 ^ nat (bitlen q)"
      by (simp only:)
    also have "\<dots> \<le> of_int p / of_int q"
    proof (rule frac_le)
      show "(0::rat) \<le> of_int p" using p by simp
      show "(2::rat) ^ nat (bitlen p - 1) \<le> of_int p"
        using bp by (metis of_int_le_iff of_int_numeral of_int_power)
      show "(0::rat) < of_int q" using q by simp
      show "(of_int q :: rat) \<le> 2 ^ nat (bitlen q)"
        using bq by (metis less_imp_le of_int_le_iff of_int_numeral of_int_power)
    qed
    finally have "pow2 (k - 1) \<le> x"
      by (simp only: x)
    then show ?thesis
      by (simp only: r)
  qed
qed

lemma rne_ge:
  assumes "of_int a \<le> y"
  shows "a \<le> rne y"
proof -
  have "a \<le> \<lfloor>y\<rfloor>"
    using assms by (simp add: le_floor_iff)
  then show ?thesis
    by (simp add: rne_def Let_def)
qed

lemma rne_le:
  assumes "y \<le> of_int b"
  shows "rne y \<le> b"
proof -
  have f: "\<lfloor>y\<rfloor> \<le> b"
    using assms by (simp add: floor_le_iff)
  show ?thesis
  proof (cases "y = of_int \<lfloor>y\<rfloor>")
    case True
    then have "y - of_int \<lfloor>y\<rfloor> = 0" by simp
    then show ?thesis
      using f by (simp add: rne_def Let_def)
  next
    case False
    moreover have "of_int \<lfloor>y\<rfloor> \<le> y"
      by (rule of_int_floor_le)
    ultimately have "of_int \<lfloor>y\<rfloor> < y"
      by (metis order_le_less)
    with assms have "(of_int \<lfloor>y\<rfloor> :: rat) < of_int b" by simp
    then have "\<lfloor>y\<rfloor> < b" by simp
    then show ?thesis
      by (simp add: rne_def Let_def)
  qed
qed

lemma round_double_between:
  assumes ax: "of_int a \<le> x" and xb: "x \<le> of_int b" and a: "0 \<le> a" and b: "b < 2 ^ 53"
  shows "\<exists>y. round_double x = Fin y \<and> of_int a \<le> y \<and> y \<le> of_int b"
proof (cases "x = 0")
  case True
  with ax xb show ?thesis
    by (simp add: round_double_def)
next
  case False
  with ax a have x: "0 < x"
    by (smt (verit) of_int_nonneg order.trans order_le_less)
  have "(of_int b :: rat) < 2 ^ 53"
    using b by (metis of_int_less_iff of_int_numeral of_int_power)
  with xb have x53: "x < 2 ^ 53" by simp
  define e where "e = max (rat_exp x - 52) (- 1074)"
  have e0: "e \<le> 0"
    using pow2_bound_exp [OF rat_exp_le [OF x] x53] by (simp add: e_def)
  define n where "n = nat (- e)"
  have pe: "pow2 e = 1 / 2 ^ n"
    using e0 by (simp add: pow2_neg_exp n_def)
  define m where "m = rne (x / pow2 e)"
  have xe: "x / pow2 e = x * 2 ^ n"
    by (simp add: pe)
  have "(of_int (a * 2 ^ n) :: rat) \<le> x * 2 ^ n"
    using ax by simp
  then have ma: "a * 2 ^ n \<le> m"
    unfolding m_def xe by (rule rne_ge)
  have "x * 2 ^ n \<le> (of_int (b * 2 ^ n) :: rat)"
    using xb by simp
  then have mb: "m \<le> b * 2 ^ n"
    unfolding m_def xe by (rule rne_le)
  have r: "round_double x = Fin (of_int m * pow2 e)"
    using x e0 by (simp add: round_double_def Let_def e_def [symmetric] m_def [symmetric])
  have "(of_int a :: rat) \<le> of_int m * pow2 e"
  proof -
    have "(of_int (a * 2 ^ n) :: rat) \<le> of_int m"
      using ma by (simp only: of_int_le_iff)
    then show ?thesis
      by (simp add: pe field_simps)
  qed
  moreover have "of_int m * pow2 e \<le> (of_int b :: rat)"
  proof -
    have "(of_int m :: rat) \<le> of_int (b * 2 ^ n)"
      using mb by (simp only: of_int_le_iff)
    then show ?thesis
      by (simp add: pe field_simps)
  qed
  ultimately show ?thesis
    using r by simp
qed

lemma round_double_int:
  assumes "0 \<le> a" and "a < 2 ^ 53"
  shows "round_double (of_int a) = Fin (of_int a)"
  using round_double_between [of a "of_int a" a] assms by auto

section \<open>Lists of floats\<close>

lemma py_max_mem: "py_max v vs \<in> set (v # vs)"
  unfolding py_max_def by (induction vs arbitrary: v) auto

lemma py_min_mem: "py_min v vs \<in> set (v # vs)"
  unfolding py_min_def by (induction vs arbitrary: v) auto

lemma entero_exacto_Fin:
  assumes "entero_exacto x"
  obtains q where "x = Fin q" and "0 \<le> q" and "q = of_int \<lfloor>q\<rfloor>"
  using assms by (cases x) auto

lemma py_max_upper:
  "list_all entero_exacto (v # vs) \<Longrightarrow>
     \<exists>q. py_max v vs = Fin q \<and> (\<forall>x\<in>set (v # vs). valor_de x \<le> q)"
proof (induction vs arbitrary: v)
  case Nil
  then show ?case
    by (auto simp: py_max_def elim: entero_exacto_Fin)
next
  case (Cons y ys)
  from Cons.prems obtain a b where v: "v = Fin a" and y: "y = Fin b"
    by (auto elim!: entero_exacto_Fin)
  let ?w = "if fless v y then y else v"
  have "list_all entero_exacto (?w # ys)"
    using Cons.prems by simp
  from Cons.IH [OF this] obtain q where q: "py_max ?w ys = Fin q"
      and le: "\<forall>x\<in>set (?w # ys). valor_de x \<le> q"
    by blast
  have "py_max v (y # ys) = py_max ?w ys"
    by (simp add: py_max_def)
  moreover have "valor_de v \<le> q" and "valor_de y \<le> q"
    using le by (auto simp: v y split: if_splits)
  ultimately show ?case
    using q le by auto
qed

lemma py_min_lower:
  "list_all entero_exacto (v # vs) \<Longrightarrow>
     \<exists>q. py_min v vs = Fin q \<and> (\<forall>x\<in>set (v # vs). q \<le> valor_de x)"
proof (induction vs arbitrary: v)
  case Nil
  then show ?case
    by (auto simp: py_min_def elim: entero_exacto_Fin)
next
  case (Cons y ys)
  from Cons.prems obtain a b where v: "v = Fin a" and y: "y = Fin b"
    by (auto elim!: entero_exacto_Fin)
  let ?w = "if fless y v then y else v"
  have "list_all entero_exacto (?w # ys)"
    using Cons.prems by simp
  from Cons.IH [OF this] obtain q where q: "py_min ?w ys = Fin q"
      and le: "\<forall>x\<in>set (?w # ys). q \<le> valor_de x"
    by blast
  have "py_min v (y # ys) = py_min ?w ys"
    by (simp add: py_min_def)
  moreover have "q \<le> valor_de v" and "q \<le> valor_de y"
    using le by (auto simp: v y split: if_splits)
  ultimately show ?case
    using q le by auto
qed

lemma sum_list_lower: "\<forall>x\<in>set xs. lo \<le> f x \<Longrightarrow> of_nat (length xs) * lo \<le> (sum_list (map f xs) :: rat)"
  by (induction xs) (auto simp: algebra_simps)

lemma sum_list_upper: "\<forall>x\<in>set xs. f x \<le> hi \<Longrightarrow> (sum_list (map f xs) :: rat) \<le> of_nat (length xs) * hi"
  by (induction xs) (auto simp: algebra_simps)

lemma valor_de_nonneg: "entero_exacto x \<Longrightarrow> 0 \<le> valor_de x"
  by (cases x) auto

lemma sum_valores_nonneg: "list_all entero_exacto xs \<Longrightarrow> 0 \<le> sum_list (map valor_de xs)"
  by (induction xs) (auto simp: valor_de_nonneg)

lemma elem_le_sum:
  "list_all entero_exacto xs \<Longrightarrow> y \<in> set xs \<Longrightarrow> valor_de y \<le> sum_list (map valor_de xs)"
proof (induction xs)
  case Nil
  then show ?case by simp
next
  case (Cons x xs)
  then have "0 \<le> valor_de x" and "0 \<le> sum_list (map valor_de xs)"
    by (simp_all add: valor_de_nonneg sum_valores_nonneg)
  with Cons show ?case
    by auto
qed

lemma entero_exacto_int:
  assumes "entero_exacto x"
  obtains k where "x = Fin (of_int k)" and "0 \<le> k"
proof -
  from assms obtain q where "x = Fin q" and "0 \<le> q" and "q = of_int \<lfloor>q\<rfloor>"
    by (rule entero_exacto_Fin)
  then have "x = Fin (of_int \<lfloor>q\<rfloor>)" and "0 \<le> \<lfloor>q\<rfloor>"
    by simp_all
  then show ?thesis
    by (rule that)
qed

lemma foldl_fadd_exacta:
  "list_all entero_exacto xs \<Longrightarrow> 0 \<le> a \<Longrightarrow> of_int a + sum_list (map valor_de xs) < 2 ^ 53 \<Longrightarrow>
     foldl fadd (Fin (of_int a)) xs = Fin (of_int a + sum_list (map valor_de xs))"
proof (induction xs arbitrary: a)
  case Nil
  then show ?case by simp
next
  case (Cons x xs)
  from Cons.prems(1) have "entero_exacto x" and all: "list_all entero_exacto xs"
    by simp_all
  then obtain k where x: "x = Fin (of_int k)" and k0: "0 \<le> k"
    by (auto elim: entero_exacto_int)
  define r where "r = sum_list (map valor_de xs)"
  have rest: "0 \<le> r"
    using all by (simp add: r_def sum_valores_nonneg)
  have total: "(of_int (a + k) :: rat) + r < 2 ^ 53"
    using Cons.prems(3) by (simp add: x r_def add.assoc)
  then have "(of_int (a + k) :: rat) < 2 ^ 53"
    using rest by linarith
  then have lt: "a + k < 2 ^ 53"
    by (metis of_int_less_iff of_int_numeral of_int_power)
  have "round_double (of_int (a + k)) = Fin (of_int (a + k))"
    using Cons.prems(2) k0 lt by (intro round_double_int) simp_all
  then have step: "fadd (Fin (of_int a)) x = Fin (of_int (a + k))"
    by (simp add: x)
  have "foldl fadd (Fin (of_int (a + k))) xs = Fin (of_int (a + k) + r)"
    unfolding r_def
  proof (rule Cons.IH)
    show "list_all entero_exacto xs" by (rule all)
    show "0 \<le> a + k" using Cons.prems(2) k0 by simp
    show "of_int (a + k) + sum_list (map valor_de xs) < (2::rat) ^ 53"
      using total by (simp only: r_def)
  qed
  then show ?case
    by (simp add: step) (simp add: x r_def add.assoc)
qed

lemma py_sum_exacta:
  assumes "suma_exacta xs"
  shows "py_sum xs = Fin (sum_list (map valor_de xs))"
proof -
  have "int_to_float 0 = Fin (of_int 0)"
    by (simp add: int_to_float_def round_double_def)
  then show ?thesis
    using foldl_fadd_exacta [of xs 0] assms by (simp add: py_sum_def suma_exacta_def)
qed

lemma promedio_acotado:
  assumes ex: "suma_exacta (v # vs)"
  shows "\<exists>pr. py_truediv (py_sum (v # vs)) (int_to_float (int (length (v # vs)))) = Inr pr
           \<and> fle (py_min v vs) pr \<and> fle pr (py_max v vs)"
proof -
  define xs where "xs = v # vs"
  define S where "S = sum_list (map valor_de xs)"
  define n where "n = int (length xs)"
  have all: "list_all entero_exacto xs" and S53: "S < 2 ^ 53" and n53: "n < 2 ^ 53"
    using ex by (simp_all add: suma_exacta_def xs_def S_def n_def)
  have n0: "0 < n"
    by (simp add: n_def xs_def)
  obtain lo where lo: "py_min v vs = Fin lo" and lo_le: "\<forall>x\<in>set xs. lo \<le> valor_de x"
    using py_min_lower [of v vs] all unfolding xs_def by blast
  obtain hi where hi: "py_max v vs = Fin hi" and hi_ge: "\<forall>x\<in>set xs. valor_de x \<le> hi"
    using py_max_upper [of v vs] all unfolding xs_def by blast
  have lo_mem: "Fin lo \<in> set xs" and hi_mem: "Fin hi \<in> set xs"
    using py_min_mem [of v vs] py_max_mem [of v vs] lo hi by (simp_all add: xs_def)
  have "entero_exacto (Fin lo)" and "entero_exacto (Fin hi)"
    using all lo_mem hi_mem by (auto simp: list_all_iff)
  then have lo_int: "lo = of_int \<lfloor>lo\<rfloor>" and lo0: "0 \<le> \<lfloor>lo\<rfloor>"
      and hi_int: "hi = of_int \<lfloor>hi\<rfloor>"
    by simp_all
  have "valor_de (Fin hi) \<le> S"
    unfolding S_def using all hi_mem by (rule elem_le_sum)
  then have "hi < 2 ^ 53"
    using S53 by simp
  then have "(of_int \<lfloor>hi\<rfloor> :: rat) < 2 ^ 53"
    using hi_int by simp
  then have hi53: "\<lfloor>hi\<rfloor> < 2 ^ 53"
    by (metis of_int_less_iff of_int_numeral of_int_power)
  have nn: "(of_nat (length xs) :: rat) = of_int n"
    by (simp add: n_def)
  have "of_int n * lo \<le> S" and "S \<le> of_int n * hi"
    using sum_list_lower [OF lo_le] sum_list_upper [OF hi_ge] by (simp_all add: S_def nn)
  then have "lo \<le> S / of_int n" and "S / of_int n \<le> hi"
    using n0 by (simp_all add: field_simps)
  then have "of_int \<lfloor>lo\<rfloor> \<le> S / of_int n" and "S / of_int n \<le> of_int \<lfloor>hi\<rfloor>"
    using lo_int hi_int by simp_all
  from round_double_between [OF this lo0 hi53]
  obtain y where y: "round_double (S / of_int n) = Fin y" and ly: "lo \<le> y" and yh: "y \<le> hi"
    using lo_int hi_int by auto
  have nf: "int_to_float n = Fin (of_int n)"
    using round_double_int [of n] n53 n0 by (simp add: int_to_float_def)
  have sf: "py_sum xs = Fin S"
    using py_sum_exacta [OF ex] by (simp only: xs_def S_def)
  have "py_truediv (py_sum xs) (int_to_float n) = Inr (Fin y)"
    using y n0 by (simp add: sf nf)
  moreover have "fle (Fin lo) (Fin y)" and "fle (Fin y) (Fin hi)"
    using ly yh by (auto simp: fle_def)
  ultimately show ?thesis
    using lo hi by (simp add: xs_def n_def)
qed

lemma round_double_not_NaN: "round_double x \<noteq> NaN"
  by (simp add: round_double_def Let_def)

lemma py_float_not_NaN: "py_float s = Inr v \<Longrightarrow> v \<noteq> NaN"
  by (auto simp: py_float_def Let_def round_double_not_NaN split: if_splits)

lemma emap_all:
  assumes "emap f xs = Inr ys" and "\<And>x y. f x = Inr y \<Longrightarrow> P y"
  shows "list_all P ys"
  using assms(1)
proof (induction xs arbitrary: ys)
  case Nil
  then show ?case by simp
next
  case (Cons x xs)
  then show ?case
    by (auto simp: ebind_def assms(2) split: sum.splits)
qed

lemma emap_nonempty: "emap f xs = Inr ys \<Longrightarrow> xs \<noteq> [] \<Longrightarrow> ys \<noteq> []"
  by (cases xs) (auto simp: ebind_def split: sum.splits)

lemma valores_aire_not_NaN: "list_all (\<lambda>v. v \<noteq> NaN) (valores_aire matches)"
  by (induction matches) (auto simp: valores_aire_def py_float_not_NaN split: sum.splits)

lemma fle_refl: "x \<noteq> NaN \<Longrightarrow> fle x x"
  by (simp add: fle_def)

lemma fle_trans: "fle x y \<Longrightarrow> fle y z \<Longrightarrow> fle x z"
  by (cases x; cases y; cases z) (auto simp: fle_def)

lemma fless_fle: "fless x y \<Longrightarrow> fle x y"
  by (cases x; cases y) (auto simp: fle_def)

lemma py_min_le_first: "list_all (\<lambda>x. x \<noteq> NaN) (v # vs) \<Longrightarrow> fle (py_min v vs) v"
proof (induction vs arbitrary: v)
  case Nil
  then show ?case by (simp add: py_min_def fle_refl)
next
  case (Cons y ys)
  let ?w = "if fless y v then y else v"
  have "fle (py_min ?w ys) ?w"
    using Cons.prems by (intro Cons.IH) simp
  moreover have "fle ?w v"
    using Cons.prems by (simp add: fless_fle fle_refl)
  moreover have "py_min v (y # ys) = py_min ?w ys"
    by (simp add: py_min_def)
  ultimately show ?case
    by (metis fle_trans)
qed

lemma py_max_ge_first: "list_all (\<lambda>x. x \<noteq> NaN) (v # vs) \<Longrightarrow> fle v (py_max v vs)"
proof (induction vs arbitrary: v)
  case Nil
  then show ?case by (simp add: py_max_def fle_refl)
next
  case (Cons y ys)
  let ?w = "if fless v y then y else v"
  have "fle ?w (py_max ?w ys)"
    using Cons.prems by (intro Cons.IH) simp
  moreover have "fle v ?w"
    using Cons.prems by (simp add: fless_fle fle_refl)
  moreover have "py_max v (y # ys) = py_max ?w ys"
    by (simp add: py_max_def)
  ultimately show ?case
    by (metis fle_trans)
qed

lemma estadisticas_campos:
  assumes "estadisticas vs t0 = Inr t" and "\<not> has_key ''valores_encontrados'' t0"
    and "dget ''valores_encontrados'' t = Some (PFloats valores)"
  shows "\<exists>v rest pr. valores = v # rest \<and> vs = valores
           \<and> dget ''valor_maximo'' t = Some (PFloat (py_max v rest))
           \<and> dget ''valor_minimo'' t = Some (PFloat (py_min v rest))
           \<and> py_truediv (py_sum valores) (int_to_float (int (length valores))) = Inr pr
           \<and> dget ''promedio_valores'' t = Some (PFloat pr)"
proof (cases vs)
  case Nil
  with assms show ?thesis
    by (simp add: estadisticas_def has_key_def)
next
  case (Cons v rest)
  with assms(1) obtain pr where
      pr: "py_truediv (py_sum vs) (int_to_float (int (length vs))) = Inr pr"
      and t: "t = dset ''promedio_valores'' (PFloat pr)
                   (dset ''valor_minimo'' (PFloat (py_min v rest))
                     (dset ''valor_maximo'' (PFloat (py_max v rest))
                       (dset ''valores_encontrados'' (PFloats vs) t0)))"
    by (auto simp: estadisticas_def Let_def ebind_def split: sum.splits)
  from assms(3) have "valores = vs"
    by (simp add: t dget_dset)
  then show ?thesis
    using Cons pr by (simp add: t dget_dset)
qed

lemma totales_essa_estadisticas:
  assumes "extraer_totales_essa texto = Inr t"
    and "dget ''valores_encontrados'' t = Some (PFloats valores)"
  shows "\<exists>vs. estadisticas vs [] = Inr t \<and> list_all (\<lambda>v. v \<noteq> NaN) vs"
proof (cases "re_findall1 patron_valores_essa texto [] = []")
  case True
  with assms show ?thesis
    by (simp add: extraer_totales_essa_def dget_Nil)
next
  case False
  with assms(1) obtain vs where
      e: "emap (\<lambda>m. py_float (no_commas m)) (re_findall1 patron_valores_essa texto []) = Inr vs"
      and s: "estadisticas vs [] = Inr t"
    by (auto simp: extraer_totales_essa_def ebind_def split: sum.splits)
  have "list_all (\<lambda>v. v \<noteq> NaN) vs"
    using e by (rule emap_all) (rule py_float_not_NaN)
  with s show ?thesis by blast
qed

lemma totales_aire_estadisticas:
  assumes "extraer_totales_aire texto = Inr t"
    and "dget ''valores_encontrados'' t = Some (PFloats valores)"
  shows "\<exists>vs t0. estadisticas vs t0 = Inr t \<and> \<not> has_key ''valores_encontrados'' t0
           \<and> list_all (\<lambda>v. v \<noteq> NaN) vs"
proof -
  let ?g = "re_findall1 patron_total_general texto []"
  let ?ms = "re_findall1 patron_valores_aire texto []"
  from assms(1) obtain t1 where
      a: "set_float ''total_pagar_mes'' (re_search patron_total_pagar texto [IGNORECASE])
            no_commas_dots [] = Inr t1"
      and b: "ebind (if ?g \<noteq> []
                     then ebind (py_float (no_dots (hd ?g)))
                            (\<lambda>v. Inr (dset ''total_general'' (PFloat v) t1))
                     else Inr t1)
                (\<lambda>totales. if ?ms \<noteq> [] then estadisticas (valores_aire ?ms) totales
                            else Inr totales) = Inr t"
    by (auto simp: extraer_totales_aire_def ebind_def Let_def split: sum.splits)
  from b obtain t2 where
      c: "(if ?g \<noteq> []
           then ebind (py_float (no_dots (hd ?g)))
                  (\<lambda>v. Inr (dset ''total_general'' (PFloat v) t1))
           else Inr t1) = Inr t2"
      and d: "(if ?ms \<noteq> [] then estadisticas (valores_aire ?ms) t2 else Inr t2) = Inr t"
    by (auto simp: ebind_def split: sum.splits)
  have k1: "\<not> has_key ''valores_encontrados'' t1"
    using a by (auto simp: set_float_def ebind_def has_key_dset has_key_Nil has_key_Cons
        split: option.splits sum.splits)
  have k2: "\<not> has_key ''valores_encontrados'' t2"
    using c k1 by (auto simp: ebind_def has_key_dset split: if_splits sum.splits)
  show ?thesis
  proof (cases "?ms = []")
    case True
    with d k2 assms(2) show ?thesis
      by (simp add: has_key_def)
  next
    case False
    with d have "estadisticas (valores_aire ?ms) t2 = Inr t"
      by simp
    with k2 valores_aire_not_NaN show ?thesis
      by blast
  qed
qed

section \<open>The statistics of the totals\<close>







text \<open>
  Claim C10 says that the mean lies between the minimum and the maximum whenever the
  statistics are produced. The values are floats: the sum of three equal values of
  sixteen digits is rounded up, and the mean, rounded again, is the next whole
  number above all three.
\<close>

theorem promedio_counterexample:
  "extraer_totales_essa ''9007199254740986 9007199254740986 9007199254740986''
     = Inr [(''valores_encontrados'',
             PFloats [Fin 9007199254740986, Fin 9007199254740986, Fin 9007199254740986]),
            (''valor_maximo'', PFloat (Fin 9007199254740986)),
            (''valor_minimo'', PFloat (Fin 9007199254740986)),
            (''promedio_valores'', PFloat (Fin 9007199254740987))]
   \<and> extraer_totales_aire ''9007199254740986 9007199254740986 9007199254740986''
     = Inr [(''valores_encontrados'',
             PFloats [Fin 9007199254740986, Fin 9007199254740986, Fin 9007199254740986]),
            (''valor_maximo'', PFloat (Fin 9007199254740986)),
            (''valor_minimo'', PFloat (Fin 9007199254740986)),
            (''promedio_valores'', PFloat (Fin 9007199254740987))]
   \<and> \<not> fle (Fin 9007199254740987) (Fin 9007199254740986)"
proof -
  let ?t = "''9007199254740986 9007199254740986 9007199254740986''"
  let ?r = "[(''valores_encontrados'',
             PFloats [Fin 9007199254740986, Fin 9007199254740986, Fin 9007199254740986]),
            (''valor_maximo'', PFloat (Fin 9007199254740986)),
            (''valor_minimo'', PFloat (Fin 9007199254740986)),
            (''promedio_valores'', PFloat (Fin 9007199254740987))]"
  have a: "extraer_totales_essa ?t = Inr ?r"
    by code_simp
  have b: "extraer_totales_aire ?t = Inr ?r"
    by code_simp
  have c: "\<not> fle (Fin 9007199254740987) (Fin 9007199254740986)"
    by (simp add: fle_def)
  from a b c show ?thesis
    by simp
qed

text \<open>
  Claim C10, amended. Whenever the statistics are produced, the minimum and the
  maximum are elements of the list of found values and the minimum is at most the
  maximum; the mean lies between them whenever the found values are whole numbers
  whose sum is below \<open>2 ^ 53\<close>, so that the sum is computed without rounding.
\<close>

theorem estadisticas_acotadas:
  "(extraer_totales_essa texto = Inr totales \<or> extraer_totales_aire texto = Inr totales)
     \<and> dget ''valores_encontrados'' totales = Some (PFloats valores) \<longrightarrow>
   (\<exists>mn mx pr. dget ''valor_minimo'' totales = Some (PFloat mn)
      \<and> dget ''valor_maximo'' totales = Some (PFloat mx)
      \<and> dget ''promedio_valores'' totales = Some (PFloat pr)
      \<and> mn \<in> set valores \<and> mx \<in> set valores \<and> fle mn mx
      \<and> (suma_exacta valores \<longrightarrow> fle mn pr \<and> fle pr mx))"
proof (intro impI, elim conjE)
  assume ext: "extraer_totales_essa texto = Inr totales \<or> extraer_totales_aire texto = Inr totales"
    and ve: "dget ''valores_encontrados'' totales = Some (PFloats valores)"
  from ext ve obtain vs t0 where s: "estadisticas vs t0 = Inr totales"
      and t0: "\<not> has_key ''valores_encontrados'' t0" and nn: "list_all (\<lambda>v. v \<noteq> NaN) vs"
    using totales_essa_estadisticas [of texto totales valores]
      totales_aire_estadisticas [of texto totales valores] has_key_Nil by blast
  from estadisticas_campos [OF s t0 ve] obtain v rest pr where
      vals: "valores = v # rest" and vs: "vs = valores"
      and mx: "dget ''valor_maximo'' totales = Some (PFloat (py_max v rest))"
      and mn: "dget ''valor_minimo'' totales = Some (PFloat (py_min v rest))"
      and pr: "py_truediv (py_sum valores) (int_to_float (int (length valores))) = Inr pr"
      and prd: "dget ''promedio_valores'' totales = Some (PFloat pr)"
    by blast
  have mem: "py_min v rest \<in> set valores" "py_max v rest \<in> set valores"
    using py_min_mem [of v rest] py_max_mem [of v rest] by (simp_all add: vals)
  have nn': "list_all (\<lambda>x. x \<noteq> NaN) (v # rest)"
    using nn by (simp add: vs vals)
  have le: "fle (py_min v rest) (py_max v rest)"
    using py_min_le_first [OF nn'] py_max_ge_first [OF nn'] by (rule fle_trans)
  have "suma_exacta valores \<longrightarrow> fle (py_min v rest) pr \<and> fle pr (py_max v rest)"
  proof
    assume "suma_exacta valores"
    then have "suma_exacta (v # rest)" by (simp add: vals)
    from promedio_acotado [OF this] pr show "fle (py_min v rest) pr \<and> fle pr (py_max v rest)"
      by (simp add: vals)
  qed
  with mn mx prd mem le show "\<exists>mn mx pr. dget ''valor_minimo'' totales = Some (PFloat mn)
      \<and> dget ''valor_maximo'' totales = Some (PFloat mx)
      \<and> dget ''promedio_valores'' totales = Some (PFloat pr)
      \<and> mn \<in> set valores \<and> mx \<in> set valores \<and> fle mn mx
      \<and> (suma_exacta valores \<longrightarrow> fle mn pr \<and> fle pr mx)"
    by blast
qed

text \<open>Two values of seven digits: the sum is exact and the mean lies between them.\<close>

theorem estadisticas_acotadas_witness:
  "extraer_totales_essa ''Saldo 9999999, antes $ 1234567 (123456)''
     = Inr [(''valores_encontrados'', PFloats [Fin 9999999, Fin 1234567]),
            (''valor_maximo'', PFloat (Fin 9999999)), (''valor_minimo'', PFloat (Fin 1234567)),
            (''promedio_valores'', PFloat (Fin 5617283))]
   \<and> suma_exacta [Fin 9999999, Fin 1234567]
   \<and> fle (Fin 1234567) (Fin 5617283) \<and> fle (Fin 5617283) (Fin 9999999)
   \<and> fle (Fin 1234567) (Fin 9999999)"
proof -
  let ?t = "''Saldo 9999999, antes $ 1234567 (123456)''"
  let ?v = "[Fin 9999999, Fin 1234567]"
  let ?r = "[(''valores_encontrados'', PFloats ?v),
            (''valor_maximo'', PFloat (Fin 9999999)), (''valor_minimo'', PFloat (Fin 1234567)),
            (''promedio_valores'', PFloat (Fin 5617283))]"
  have a: "extraer_totales_essa ?t = Inr ?r"
    by code_simp
  have b: "dget ''valores_encontrados'' ?r = Some (PFloats ?v)"
    by (simp add: dget_Cons)
  have c: "suma_exacta ?v"
    by (simp add: suma_exacta_def)
  from estadisticas_acotadas [of ?t ?r ?v] a b c
  have "fle (Fin 1234567) (Fin 5617283) \<and> fle (Fin 5617283) (Fin 9999999)
          \<and> fle (Fin 1234567) (Fin 9999999)"
    by (simp add: dget_Cons)
  with a c show ?thesis
    by simp
qed

end
